theory Spec2Isabelle
  imports Complex_Main "HOL-Library.Sublist"
begin

section \<open>Values stored in the logs\<close>

text \<open>
  The records of \<^verbatim>\<open>alerts/logger.py\<close> are Python dicts written with \<^verbatim>\<open>json.dumps\<close>, one
  per line, and read back with \<^verbatim>\<open>json.loads\<close>. A JSON document is modelled by the Python
  value \<^verbatim>\<open>json.loads\<close> returns for it: \<^verbatim>\<open>None\<close>, a bool, a number, a string, a list or
  a dict (an association list; a key is looked up with \<open>map_of\<close>). Python floats and
  ints are idealised as reals; \<^verbatim>\<open>NaN\<close> and the infinities are left out.
\<close>

datatype json =
    JNull
  | JBool bool
  | JNum real
  | JStr string
  | JArr "json list"
  | JObj "(string \<times> json) list"

text \<open>
  The exceptions that the modelled code raises and does not catch. \<^verbatim>\<open>ValueError\<close> also
  stands for its subclass \<^verbatim>\<open>UnicodeEncodeError\<close>.
\<close>

datatype py_error =
    AttributeError
  | TypeError
  | RuntimeError
  | ValueError
  | UnicodeDecodeError
  | RecursionError

text \<open>
  A line of a log file stands for what \<^verbatim>\<open>json.loads(line.strip())\<close> makes of it: the document
  it holds, or \<^verbatim>\<open>json.JSONDecodeError\<close> for text that is not JSON (the text is kept).
  \<^verbatim>\<open>json.dumps(entry) + '\n'\<close> writes a line that loads as \<open>entry\<close> again. These are the
  lines the logger itself can leave in a file; a line on which reading or loading raises
  another exception is added further down (\<open>file_line\<close>).
\<close>

datatype line = Stored json | Unparsable string

fun loads :: "line \<Rightarrow> json option" where
  "loads (Stored j) = Some j"
| "loads (Unparsable s) = None"

text \<open>\<^verbatim>\<open>d.get(key, default)\<close>; only a dict has the method.\<close>

fun py_get :: "json \<Rightarrow> string \<Rightarrow> json \<Rightarrow> py_error + json" where
  "py_get (JObj kvs) k d = Inr (case map_of kvs k of None \<Rightarrow> d | Some v \<Rightarrow> v)"
| "py_get _ k d = Inl AttributeError"

text \<open>
  The numeric reading of a value under \<^verbatim>\<open>>\<close> against a number: ints, floats and bools
  (\<^verbatim>\<open>True\<close> is 1) compare, anything else raises \<^verbatim>\<open>TypeError\<close>. The summary also compares
  the epochs of two records with each other; both have been compared with the cutoff
  before, so both are numbers when that comparison is reached.
\<close>

fun py_number :: "json \<Rightarrow> real option" where
  "py_number (JNum r) = Some r"
| "py_number (JBool b) = Some (if b then 1 else 0)"
| "py_number _ = None"

definition py_gt :: "json \<Rightarrow> json \<Rightarrow> py_error + bool" where
  "py_gt a b =
     (case (py_number a, py_number b) of
        (Some x, Some y) \<Rightarrow> Inr (y < x)
      | _ \<Rightarrow> Inl TypeError)"

text \<open>\<^verbatim>\<open>s.upper()\<close> on ASCII text; only a string has the method.\<close>

definition upper_char :: "char \<Rightarrow> char" where
  "upper_char c =
     (case map_of (zip ''abcdefghijklmnopqrstuvwxyz'' ''ABCDEFGHIJKLMNOPQRSTUVWXYZ'') c of
        None \<Rightarrow> c
      | Some u \<Rightarrow> u)"

fun py_upper :: "json \<Rightarrow> py_error + string" where
  "py_upper (JStr s) = Inr (map upper_char s)"
| "py_upper _ = Inl AttributeError"

text \<open>Python truthiness, as used by \<^verbatim>\<open>details or {}\<close> and \<^verbatim>\<open>if alert.get('details')\<close>.\<close>

fun truthy :: "json \<Rightarrow> bool" where
  "truthy JNull = False"
| "truthy (JBool b) = b"
| "truthy (JNum r) = (r \<noteq> 0)"
| "truthy (JStr s) = (s \<noteq> [])"
| "truthy (JArr xs) = (xs \<noteq> [])"
| "truthy (JObj kvs) = (kvs \<noteq> [])"

section \<open>AlertLogger: the three logs and the appends\<close>

text \<open>
  \<^verbatim>\<open>self.alerts_log\<close>, \<^verbatim>\<open>self.activity_log\<close> and \<^verbatim>\<open>self.error_log\<close>. The state of the logger
  is the state of the world it acts on: the content of each file (\<open>None\<close> when the file
  does not exist), whether opening or writing a file raises (the text of the exception),
  the lines printed to the console, what \<^verbatim>\<open>platform.system()\<close> answers, whether
  \<^verbatim>\<open>os.system\<close> raises, and the commands it was given. \<^verbatim>\<open>print\<close> is first taken on a
  console that accepts every line; a console that refuses lines, where \<^verbatim>\<open>print\<close> raises,
  is added further down (\<open>print_on\<close>).
\<close>

datatype logname = AlertsLog | ActivityLog | ErrorLog

record alert_logger =
  files :: "logname \<Rightarrow> line list option"
  write_error :: "logname \<Rightarrow> string option"
  log_path :: "logname \<Rightarrow> string"
  console :: "string list"
  platform_system :: string
  os_system_error :: "string option"
  os_commands :: "string list"

definition print :: "alert_logger \<Rightarrow> string \<Rightarrow> alert_logger" where
  "print st s = st\<lparr>console := console st @ [s]\<rparr>"

text \<open>
  \<^verbatim>\<open>_write_to_log\<close>: append one line (mode \<^verbatim>\<open>'a'\<close> creates a missing file); any exception is
  caught and printed, and the log is left as it was.
\<close>

definition write_to_log :: "alert_logger \<Rightarrow> logname \<Rightarrow> json \<Rightarrow> alert_logger" where
  "write_to_log st log_file entry =
     (case write_error st log_file of
        None \<Rightarrow>
          st\<lparr>files := (files st)
                (log_file \<mapsto> (case files st log_file of None \<Rightarrow> [] | Some ls \<Rightarrow> ls) @ [Stored entry])\<rparr>
      | Some e \<Rightarrow> print st (''Error writing to log '' @ log_path st log_file @ '': '' @ e))"

text \<open>
  A reading of the clock: \<^verbatim>\<open>datetime.now().isoformat()\<close> and \<^verbatim>\<open>time.time()\<close>, which every
  append takes when it runs.
\<close>

record clock =
  isoformat :: string
  time :: real

text \<open>The dicts \<^verbatim>\<open>error_entry\<close> and \<^verbatim>\<open>info_entry\<close> of \<^verbatim>\<open>log_error\<close> and \<^verbatim>\<open>log_info\<close>.\<close>

definition error_entry :: "clock \<Rightarrow> string \<Rightarrow> string \<Rightarrow> json" where
  "error_entry now message error_details = JObj
     [(''timestamp'', JStr (isoformat now)),
      (''type'', JStr ''ERROR''),
      (''message'', JStr message),
      (''details'', JStr error_details),
      (''epoch'', JNum (time now))]"

definition info_entry :: "clock \<Rightarrow> string \<Rightarrow> json option \<Rightarrow> json" where
  "info_entry now message details = JObj
     [(''timestamp'', JStr (isoformat now)),
      (''type'', JStr ''INFO''),
      (''message'', JStr message),
      (''details'', (case details of None \<Rightarrow> JObj [] | Some d \<Rightarrow> if truthy d then d else JObj [])),
      (''epoch'', JNum (time now))]"

definition log_error :: "alert_logger \<Rightarrow> clock \<Rightarrow> string \<Rightarrow> string \<Rightarrow> alert_logger" where
  "log_error st now message error_details =
     write_to_log st ErrorLog (error_entry now message error_details)"

definition log_info :: "alert_logger \<Rightarrow> clock \<Rightarrow> string \<Rightarrow> json option \<Rightarrow> alert_logger" where
  "log_info st now message details =
     write_to_log st ActivityLog (info_entry now message details)"

text \<open>
  \<^verbatim>\<open>os.system(command)\<close>: the command is run, or the call raises (\<open>Inl\<close> the text of the
  exception). The exit status of the command is not looked at by the caller.
\<close>

definition os_system :: "alert_logger \<Rightarrow> string \<Rightarrow> string + alert_logger" where
  "os_system st command =
     (case os_system_error st of
        None \<Rightarrow> Inr (st\<lparr>os_commands := os_commands st @ [command]\<rparr>)
      | Some e \<Rightarrow> Inl e)"

text \<open>
  The two command lines of \<^verbatim>\<open>_send_system_notification\<close>, for Linux and for macOS, with
  the title \<^verbatim>\<open>HoneyHawk Security Alert\<close>.
\<close>

definition notify_send :: "string \<Rightarrow> string" where
  "notify_send message =
     ''notify-send '' @ [CHR 0x22] @ ''HoneyHawk Security Alert'' @ [CHR 0x22] @ '' '' @ [CHR 0x22]
       @ message @ [CHR 0x22]"

definition osascript :: "string \<Rightarrow> string" where
  "osascript message =
     ''osascript -e '' @ [CHR 0x27] @ ''display notification '' @ [CHR 0x22] @ message @ [CHR 0x22]
       @ '' with title '' @ [CHR 0x22] @ ''HoneyHawk Security Alert'' @ [CHR 0x22] @ [CHR 0x27]"

text \<open>
  \<^verbatim>\<open>_send_system_notification\<close>: the command for the platform is handed to \<^verbatim>\<open>os.system\<close>
  inside \<^verbatim>\<open>try\<close> (nothing is done on Windows or elsewhere); an exception there is caught
  and logged with \<^verbatim>\<open>log_error\<close>, which reads the clock again (\<open>later\<close>).
\<close>

definition send_system_notification :: "alert_logger \<Rightarrow> clock \<Rightarrow> string \<Rightarrow> alert_logger" where
  "send_system_notification st later message =
     (let system = platform_system st;
          attempt =
            (if system = ''Darwin'' then os_system st (osascript message)
             else if system = ''Linux'' then os_system st (notify_send message)
             else Inr st)
      in case attempt of
           Inr st' \<Rightarrow> st'
         | Inl e \<Rightarrow> log_error st later (''Failed to send system notification: '' @ e) [])"

text \<open>\<^verbatim>\<open>_send_high_priority_alert\<close>: the banner on the console, then the system notification.\<close>

definition send_high_priority_alert ::
  "alert_logger \<Rightarrow> clock \<Rightarrow> string \<Rightarrow> string \<Rightarrow> string \<Rightarrow> alert_logger" where
  "send_high_priority_alert st later timestamp message details =
     (let st1 = print st ([CHR 0x0A] @ replicate 60 (CHR ''=''));
          st2 = print st1 ''[!] HIGH PRIORITY ALERT [!]'';
          st3 = print st2 (''Time: '' @ timestamp);
          st4 = print st3 (''Message: '' @ message);
          st5 = (if details \<noteq> [] then print st4 (''Details: '' @ details) else st4);
          st6 = print st5 (replicate 60 (CHR ''='') @ [CHR 0x0A])
      in send_system_notification st6 later message)"

text \<open>The dict \<^verbatim>\<open>alert_entry\<close> that \<^verbatim>\<open>log_alert\<close> builds.\<close>

definition alert_entry :: "clock \<Rightarrow> string \<Rightarrow> string \<Rightarrow> string \<Rightarrow> json" where
  "alert_entry now severity message details = JObj
     [(''timestamp'', JStr (isoformat now)),
      (''severity'', JStr severity),
      (''type'', JStr ''SECURITY_ALERT''),
      (''message'', JStr message),
      (''details'', JStr details),
      (''epoch'', JNum (time now))]"

definition log_alert ::
  "alert_logger \<Rightarrow> clock \<Rightarrow> clock \<Rightarrow> string \<Rightarrow> string \<Rightarrow> string \<Rightarrow> alert_logger" where
  "log_alert st now later severity message details =
     (let entry = alert_entry now severity message details;
          st1 = write_to_log st AlertsLog entry;
          st2 = write_to_log st1 ActivityLog entry
      in if severity = ''HIGH''
         then send_high_priority_alert st2 later (isoformat now) message details
         else st2)"

section \<open>AlertLogger: the read passes\<close>

text \<open>
  The loop of \<^verbatim>\<open>get_recent_alerts\<close>, which \<^verbatim>\<open>export_logs\<close> repeats word for word on the
  alerts log and on the activity log: a line that does not load is skipped, a record is
  kept when its \<^verbatim>\<open>epoch\<close> (0 when absent) is greater than the cutoff. Only
  \<^verbatim>\<open>JSONDecodeError\<close> is caught inside the loop, so \<^verbatim>\<open>AttributeError\<close> (the line holds a
  document that is not a dict) and \<^verbatim>\<open>TypeError\<close> (the epoch does not compare with a
  number) end the pass.
\<close>

fun scan_recent :: "real \<Rightarrow> line list \<Rightarrow> json list \<Rightarrow> py_error + json list" where
  "scan_recent cutoff_time [] recent = Inr recent"
| "scan_recent cutoff_time (l # ls) recent =
     (case loads l of
        None \<Rightarrow> scan_recent cutoff_time ls recent
      | Some alert \<Rightarrow>
          (case py_get alert ''epoch'' (JNum 0) of
             Inl e \<Rightarrow> Inl e
           | Inr ep \<Rightarrow>
               (case py_gt ep (JNum cutoff_time) of
                  Inl e \<Rightarrow> Inl e
                | Inr newer \<Rightarrow>
                    scan_recent cutoff_time ls (if newer then recent @ [alert] else recent))))"

text \<open>Opening a log for reading: \<^verbatim>\<open>FileNotFoundError\<close> is caught around the loop.\<close>

definition read_recent :: "alert_logger \<Rightarrow> logname \<Rightarrow> real \<Rightarrow> py_error + json list" where
  "read_recent st log_file cutoff_time =
     (case files st log_file of
        None \<Rightarrow> Inr []
      | Some ls \<Rightarrow> scan_recent cutoff_time ls [])"

definition get_recent_alerts :: "alert_logger \<Rightarrow> real \<Rightarrow> int \<Rightarrow> py_error + json list" where
  "get_recent_alerts st time_now hours =
     (let cutoff_time = time_now - real_of_int (hours * 3600)
      in read_recent st AlertsLog cutoff_time)"

record summary =
  total_alerts :: nat
  high_severity :: nat
  medium_severity :: nat
  low_severity :: nat
  last_24h :: nat
  last_alert :: "json option"

text \<open>The body of the loop of \<^verbatim>\<open>get_alert_summary\<close> for one loaded record.\<close>

definition summary_step :: "real \<Rightarrow> summary \<Rightarrow> json \<Rightarrow> py_error + summary" where
  "summary_step cutoff_24h s alert =
     (let s1 = s\<lparr>total_alerts := total_alerts s + 1\<rparr> in
      case py_get alert ''severity'' (JStr '''') of
        Inl e \<Rightarrow> Inl e
      | Inr sv \<Rightarrow>
      (case py_upper sv of
        Inl e \<Rightarrow> Inl e
      | Inr severity \<Rightarrow>
      (let s2 =
         (if severity = ''HIGH'' then s1\<lparr>high_severity := high_severity s1 + 1\<rparr>
          else if severity = ''MEDIUM'' then s1\<lparr>medium_severity := medium_severity s1 + 1\<rparr>
          else if severity = ''LOW'' then s1\<lparr>low_severity := low_severity s1 + 1\<rparr>
          else s1) in
       case py_get alert ''epoch'' (JNum 0) of
         Inl e \<Rightarrow> Inl e
       | Inr ep \<Rightarrow>
       (case py_gt ep (JNum cutoff_24h) of
         Inl e \<Rightarrow> Inl e
       | Inr newer \<Rightarrow>
       (let s3 = (if newer then s2\<lparr>last_24h := last_24h s2 + 1\<rparr> else s2) in
        case last_alert s3 of
          None \<Rightarrow> Inr (s3\<lparr>last_alert := Some alert\<rparr>)
        | Some prev \<Rightarrow>
            (case py_get prev ''epoch'' (JNum 0) of
               Inl e \<Rightarrow> Inl e
             | Inr last_ep \<Rightarrow>
                 (case py_gt ep last_ep of
                    Inl e \<Rightarrow> Inl e
                  | Inr later \<Rightarrow> Inr (if later then s3\<lparr>last_alert := Some alert\<rparr> else s3))))))))"

fun scan_summary :: "real \<Rightarrow> line list \<Rightarrow> summary \<Rightarrow> py_error + summary" where
  "scan_summary cutoff_24h [] s = Inr s"
| "scan_summary cutoff_24h (l # ls) s =
     (case loads l of
        None \<Rightarrow> scan_summary cutoff_24h ls s
      | Some alert \<Rightarrow>
          (case summary_step cutoff_24h s alert of
             Inl e \<Rightarrow> Inl e
           | Inr s' \<Rightarrow> scan_summary cutoff_24h ls s'))"

definition empty_summary :: summary where
  "empty_summary =
     \<lparr>total_alerts = 0, high_severity = 0, medium_severity = 0, low_severity = 0,
      last_24h = 0, last_alert = None\<rparr>"

definition get_alert_summary :: "alert_logger \<Rightarrow> real \<Rightarrow> py_error + summary" where
  "get_alert_summary st time_now =
     (let cutoff_24h = time_now - 24 * 3600
      in case files st AlertsLog of
           None \<Rightarrow> Inr empty_summary
         | Some ls \<Rightarrow> scan_summary cutoff_24h ls empty_summary)"

text \<open>
  \<^verbatim>\<open>export_logs\<close>: the document handed to \<^verbatim>\<open>json.dump\<close> for the output file, and the
  logger after the closing \<^verbatim>\<open>log_info\<close>. \<open>now\<close> is the clock when the pass starts
  (\<^verbatim>\<open>time.time()\<close> for the cutoff, \<^verbatim>\<open>datetime.now()\<close> for \<^verbatim>\<open>export_timestamp\<close>) and
  \<open>later\<close> the clock of the \<^verbatim>\<open>log_info\<close>. Writing the output file is taken to succeed.
\<close>

definition export_logs ::
  "alert_logger \<Rightarrow> clock \<Rightarrow> clock \<Rightarrow> string \<Rightarrow> int \<Rightarrow> py_error + json \<times> alert_logger" where
  "export_logs st now later output_file hours =
     (let cutoff_time = time now - real_of_int (hours * 3600) in
      case read_recent st AlertsLog cutoff_time of
        Inl e \<Rightarrow> Inl e
      | Inr alerts \<Rightarrow>
          (case read_recent st ActivityLog cutoff_time of
             Inl e \<Rightarrow> Inl e
           | Inr activities \<Rightarrow>
               Inr (JObj
                      [(''export_timestamp'', JStr (isoformat now)),
                       (''hours_exported'', JNum (real_of_int hours)),
                       (''alerts'', JArr alerts),
                       (''activities'', JArr activities),
                       (''errors'', JArr [])],
                    log_info st later (''Exported logs to '' @ output_file) None)))"

section \<open>Sequences of appends, and what a log holds\<close>

text \<open>
  A call of one of the three appending methods, with the clock readings it takes
  (\<^verbatim>\<open>log_alert\<close>: its own, and the one of the \<^verbatim>\<open>log_error\<close> after a failed notification).
\<close>

datatype event =
    Alert clock clock string string string
  | Info clock string "json option"
  | Error clock string string

fun append :: "alert_logger \<Rightarrow> event \<Rightarrow> alert_logger" where
  "append st (Alert now later severity message details) =
     log_alert st now later severity message details"
| "append st (Info now message details) = log_info st now message details"
| "append st (Error now message error_details) = log_error st now message error_details"

text \<open>The record an append builds.\<close>

fun entry_of :: "event \<Rightarrow> json" where
  "entry_of (Alert now later severity message details) = alert_entry now severity message details"
| "entry_of (Info now message details) = info_entry now message details"
| "entry_of (Error now message error_details) = error_entry now message error_details"

text \<open>The lines of a log (none when the file is missing) and the records that load.\<close>

definition log_lines :: "alert_logger \<Rightarrow> logname \<Rightarrow> line list" where
  "log_lines st log_file = (case files st log_file of None \<Rightarrow> [] | Some ls \<Rightarrow> ls)"

definition parsed :: "line list \<Rightarrow> json list" where
  "parsed ls = List.map_filter loads ls"

text \<open>The value of a key of a record, and the number its \<^verbatim>\<open>epoch\<close> stands for.\<close>

fun field :: "string \<Rightarrow> json \<Rightarrow> json option" where
  "field k (JObj kvs) = map_of kvs k"
| "field k _ = None"

definition epoch_of :: "json \<Rightarrow> real" where
  "epoch_of r =
     (case field ''epoch'' r of
        None \<Rightarrow> 0
      | Some v \<Rightarrow> (case py_number v of None \<Rightarrow> 0 | Some x \<Rightarrow> x))"

text \<open>
  The records the read passes go through without raising: a dict whose \<^verbatim>\<open>epoch\<close>, when it
  has one, is a number; for the summary, whose \<^verbatim>\<open>severity\<close>, when it has one, is a string.
\<close>

fun is_dict :: "json \<Rightarrow> bool" where
  "is_dict (JObj kvs) = True"
| "is_dict _ = False"

fun is_str :: "json \<Rightarrow> bool" where
  "is_str (JStr s) = True"
| "is_str _ = False"

definition timed :: "json \<Rightarrow> bool" where
  "timed r =
     (is_dict r \<and> (case field ''epoch'' r of None \<Rightarrow> True | Some v \<Rightarrow> py_number v \<noteq> None))"

definition graded :: "json \<Rightarrow> bool" where
  "graded r =
     (timed r \<and> (case field ''severity'' r of None \<Rightarrow> True | Some v \<Rightarrow> is_str v))"

text \<open>The severity of a record as the summary reads it: upper-cased, empty when absent.\<close>

definition severity_of :: "json \<Rightarrow> string" where
  "severity_of r =
     (case field ''severity'' r of
        Some (JStr s) \<Rightarrow> map upper_char s
      | _ \<Rightarrow> [])"

text \<open>Which appends are calls of \<^verbatim>\<open>log_alert\<close>.\<close>

fun is_alert :: "event \<Rightarrow> bool" where
  "is_alert (Alert now later severity message details) = True"
| "is_alert _ = False"

text \<open>
  \<^verbatim>\<open>AlertLogger.__init__\<close>: the three files are created empty where they are missing, and the
  start is logged.
\<close>

definition new_logger :: "alert_logger \<Rightarrow> clock \<Rightarrow> alert_logger" where
  "new_logger st now =
     log_info
       (st\<lparr>files := (\<lambda>log_file. case files st log_file of None \<Rightarrow> Some [] | Some ls \<Rightarrow> Some ls)\<rparr>)
       now ''AlertLogger initialized'' None"

subsection \<open>Machines and loggers used as examples\<close>

text \<open>A Linux machine with an empty \<^verbatim>\<open>logs\<close> directory, where nothing fails.\<close>

definition quiet_machine :: alert_logger where
  "quiet_machine =
     \<lparr>files = (\<lambda>log_file. None),
      write_error = (\<lambda>log_file. None),
      log_path = (\<lambda>log_file. case log_file of
                    AlertsLog \<Rightarrow> ''logs/alerts.log''
                  | ActivityLog \<Rightarrow> ''logs/activity.log''
                  | ErrorLog \<Rightarrow> ''logs/errors.log''),
      console = [],
      platform_system = ''Linux'',
      os_system_error = None,
      os_commands = []\<rparr>"

definition at_time :: "real \<Rightarrow> clock" where
  "at_time t = \<lparr>isoformat = ''2024-01-01T00:00:00'', time = t\<rparr>"

text \<open>
  What one more record does to "the newest record so far": it replaces the one kept only
  when its epoch is greater.
\<close>

definition keep_newest :: "json option \<Rightarrow> json \<Rightarrow> json option" where
  "keep_newest best r =
     (case best of
        None \<Rightarrow> Some r
      | Some p \<Rightarrow> if epoch_of p < epoch_of r then Some r else Some p)"

text \<open>A logger after five alerts of severities HIGH, HIGH, MEDIUM, LOW, UNKNOWN.\<close>

definition five_alerts :: alert_logger where
  "five_alerts =
     foldl append (new_logger quiet_machine (at_time 0))
       [Alert (at_time 1) (at_time 1) ''HIGH'' ''a'' [],
        Alert (at_time 2) (at_time 2) ''HIGH'' ''b'' [],
        Alert (at_time 3) (at_time 3) ''MEDIUM'' ''c'' [],
        Alert (at_time 4) (at_time 4) ''LOW'' ''d'' [],
        Alert (at_time 5) (at_time 5) ''UNKNOWN'' ''e'' []]"

text \<open>A logger after two alerts that carry the same epoch.\<close>

definition tied_alerts :: alert_logger where
  "tied_alerts =
     foldl append (new_logger quiet_machine (at_time 0))
       [Alert (at_time 50) (at_time 51) ''LOW'' ''earlier'' [],
        Alert (at_time 50) (at_time 51) ''LOW'' ''later'' []]"

text \<open>
  A machine whose alerts log and activity log each hold a line cut short between two
  whole records, as a writer stopped in the middle of a write leaves it.
\<close>

definition torn_logs :: alert_logger where
  "torn_logs =
     quiet_machine
       \<lparr>files :=
          (\<lambda>log_file. Some [])
            (AlertsLog \<mapsto>
               [Stored (alert_entry (at_time 10) ''HIGH'' ''first'' []),
                Unparsable (''{'' @ [CHR 0x22] @ ''timestamp'' @ [CHR 0x22] @ '': '' @ [CHR 0x22] @ ''2024-01''),
                Stored (alert_entry (at_time 20) ''MEDIUM'' ''second'' [])],
             ActivityLog \<mapsto>
               [Stored (info_entry (at_time 0) ''AlertLogger initialized'' None),
                Unparsable ''{'',
                Stored (alert_entry (at_time 20) ''MEDIUM'' ''second'' [])])\<rparr>"

text \<open>A logger whose error log holds one record, written by \<^verbatim>\<open>log_error\<close> at time 100.\<close>

definition one_error :: alert_logger where
  "one_error =
     log_error (new_logger quiet_machine (at_time 0)) (at_time 100)
       ''SSH honeypot error: connection reset'' []"



section \<open>CanaryFileHandler: classifying file system events\<close>


text \<open>
  The two clock readings of a \<^verbatim>\<open>log_alert\<close> call (its own, and the one of the \<^verbatim>\<open>log_error\<close>
  after a failed notification).
\<close>

record clocks =
  alert_clock :: clock
  error_clock :: clock


text \<open>The dict of \<^verbatim>\<open>_get_system_info\<close>.\<close>

record system_info =
  hostname :: string
  os :: string
  user :: string
  platform :: string
  error :: "string option"



text \<open>The dict \<^verbatim>\<open>event_details\<close>.\<close>

record event_details =
  details_event_type :: string
  file_path :: string
  timestamp :: real
  details_system_info :: system_info















section \<open>FileWatcher and NetworkMonitor: start and stop\<close>

text \<open>
  A \<^verbatim>\<open>threading.Thread\<close> (watchdog's \<^verbatim>\<open>Observer\<close> is one): \<^verbatim>\<open>start()\<close> raises \<^verbatim>\<open>RuntimeError\<close>
  unless the thread is new, \<^verbatim>\<open>join()\<close> raises it on a thread that was never started.
\<close>

datatype thread = Unstarted | Alive | Finished

text \<open>
  What the detectors share: the reference to the logger (\<^verbatim>\<open>self.alert_logger\<close>) and the
  flag \<^verbatim>\<open>self.is_running\<close>.
\<close>

record logging =
  logger :: alert_logger

record detector = logging +
  is_running :: bool

record file_watcher = detector +
  watch_directory :: string
  observer :: thread

record network_monitor = detector +
  monitors :: "thread list"

text \<open>
  \<^verbatim>\<open>FileWatcher.start\<close> (creating the watched directory and scheduling the handler are
  left out) and \<^verbatim>\<open>FileWatcher.stop\<close>, which stops and joins the observer only when the
  flag is set.
\<close>

definition file_watcher_start :: "file_watcher \<Rightarrow> clock \<Rightarrow> py_error + file_watcher" where
  "file_watcher_start w now =
     (case observer w of
        Unstarted \<Rightarrow>
          Inr (w\<lparr>observer := Alive,
                 is_running := True,
                 logger :=
                   print
                     (log_info (logger w) now
                        (''File watcher started monitoring: '' @ watch_directory w) None)
                     (''File watcher active on: '' @ watch_directory w)\<rparr>)
      | _ \<Rightarrow> Inl RuntimeError)"

definition file_watcher_stop :: "file_watcher \<Rightarrow> clock \<Rightarrow> py_error + file_watcher" where
  "file_watcher_stop w now =
     (if is_running w then
        (case observer w of
           Unstarted \<Rightarrow> Inl RuntimeError
         | _ \<Rightarrow>
             Inr (w\<lparr>observer := Finished,
                    is_running := False,
                    logger := log_info (logger w) now ''File watcher stopped'' None\<rparr>))
      else Inr w)"

definition is_alive :: "file_watcher \<Rightarrow> bool" where
  "is_alive w = (if is_running w then observer w = Alive else False)"

text \<open>
  \<^verbatim>\<open>NetworkMonitor.start\<close> hands the honeypot and the DNS placeholder to two new threads;
  \<^verbatim>\<open>NetworkMonitor.stop\<close> clears the flag and logs. Its loop over \<^verbatim>\<open>self.monitors\<close> calls
  \<^verbatim>\<open>stop()\<close> only on a monitor that has such a method, and a thread has none.
\<close>

definition network_monitor_start :: "network_monitor \<Rightarrow> clock \<Rightarrow> network_monitor" where
  "network_monitor_start n now =
     n\<lparr>is_running := True,
       monitors := monitors n @ [Alive, Alive],
       logger := log_info (logger n) now ''Network monitoring started'' None\<rparr>"

definition network_monitor_stop :: "network_monitor \<Rightarrow> clock \<Rightarrow> network_monitor" where
  "network_monitor_stop n now =
     n\<lparr>is_running := False,
       logger := log_info (logger n) now ''Network monitoring stopped'' None\<rparr>"

text \<open>A file watcher and a network monitor that have been started.\<close>

definition running_watcher :: file_watcher where
  "running_watcher =
     \<lparr>logger = new_logger quiet_machine (at_time 0), is_running = True,
      watch_directory = ''tokens'', observer = Alive\<rparr>"

definition running_monitor :: network_monitor where
  "running_monitor =
     \<lparr>logger = new_logger quiet_machine (at_time 0), is_running = True,
      monitors = [Alive, Alive]\<rparr>"

section \<open>NetworkMonitor: the SSH honeypot\<close>

text \<open>\<^verbatim>\<open>str(n)\<close> of a port number.\<close>

fun decimal :: "nat \<Rightarrow> string" where
  "decimal n =
     (if n < 10 then [''0123456789'' ! n]
      else decimal (n div 10) @ [''0123456789'' ! (n mod 10)])"

declare decimal.simps [simp del]

text \<open>
  An accepted connection: the address of the caller, the text of
  \<^verbatim>\<open>datetime.now().strftime('%Y-%m-%d %H:%M:%S')\<close>, the clock readings of the \<^verbatim>\<open>log_alert\<close>,
  and whether \<^verbatim>\<open>send\<close> and \<^verbatim>\<open>close\<close> on the client socket raise.
\<close>

record connection = clocks +
  client_ip :: string
  client_port :: nat
  accept_time_text :: string
  send_raises :: bool
  close_raises :: bool

text \<open>
  What one turn of \<^verbatim>\<open>while self.is_running\<close> meets: the flag is found cleared; or
  \<^verbatim>\<open>sock.accept()\<close> returns a connection, runs into the one-second timeout, or raises
  another exception (with the flag as the handler then reads it, and the clock of the
  \<^verbatim>\<open>log_error\<close>).
\<close>

datatype accept_outcome =
    Stopped
  | Connected connection
  | TimedOut
  | Failed string bool clock

text \<open>What is done to a client socket, in order.\<close>

datatype socket_action = Send string | Sleep nat | Close

text \<open>
  The honeypot thread: the logger it shares, what each client met (address, port and the
  actions on its socket), and whether the listening socket is open.
\<close>

record honeypot = logging +
  wire :: "(string \<times> nat \<times> socket_action list) list"
  listening :: bool

definition ssh_banner :: string where
  "ssh_banner = ''SSH-2.0-OpenSSH_8.9'' @ [CHR 0x0D, CHR 0x0A]"

definition ssh_alert_details :: "connection \<Rightarrow> string" where
  "ssh_alert_details c =
     [CHR 0x0A] @ ''Service: Fake SSH Server''
     @ [CHR 0x0A] @ ''Client IP: '' @ client_ip c
     @ [CHR 0x0A] @ ''Client Port: '' @ decimal (client_port c)
     @ [CHR 0x0A] @ ''Time: '' @ accept_time_text c
     @ [CHR 0x0A] @ ''Likely Cause: Someone tried to use the fake SSH key''
     @ [CHR 0x0A] @ replicate 24 (CHR '' '')"

text \<open>
  The inner \<^verbatim>\<open>try\<close>: the banner is sent, the thread sleeps two seconds, the socket is
  closed; an exception of \<^verbatim>\<open>send\<close> or \<^verbatim>\<open>close\<close> ends the block and is dropped.
\<close>

definition socket_actions :: "connection \<Rightarrow> socket_action list" where
  "socket_actions c =
     (if send_raises c then []
      else [Send ssh_banner, Sleep 2] @ (if close_raises c then [] else [Close]))"

text \<open>The body of the loop for an accepted connection.\<close>

definition serve :: "honeypot \<Rightarrow> connection \<Rightarrow> honeypot" where
  "serve h c =
     (let alert_message = ''CANARY TRIGGERED - SSH Connection Attempt!'';
          alert_details = ssh_alert_details c;
          st1 = log_alert (logger h) (alert_clock c) (error_clock c) ''HIGH'' alert_message alert_details;
          st2 = print st1 ([CHR 0x0A] @ ''[!] SSH CANARY TRIGGERED from '' @ client_ip c @ '':''
                           @ decimal (client_port c))
      in h\<lparr>logger := st2,
           wire := wire h @ [(client_ip c, client_port c, socket_actions c)]\<rparr>)"

text \<open>
  The accept loop over the outcomes the thread meets, one per turn; it is left through
  the cleared flag or through \<^verbatim>\<open>break\<close>, and then the listening socket is closed. With
  no outcome left the thread is still in the loop.
\<close>

fun accept_loop :: "honeypot \<Rightarrow> accept_outcome list \<Rightarrow> honeypot" where
  "accept_loop h [] = h"
| "accept_loop h (Stopped # rest) = h\<lparr>listening := False\<rparr>"
| "accept_loop h (Connected c # rest) = accept_loop (serve h c) rest"
| "accept_loop h (TimedOut # rest) = accept_loop h rest"
| "accept_loop h (Failed e running now # rest) =
     (if running
      then h\<lparr>logger := log_error (logger h) now (''SSH honeypot error: '' @ e) [],
             listening := False\<rparr>
      else h\<lparr>listening := False\<rparr>)"

text \<open>
  \<^verbatim>\<open>ssh_honeypot\<close>, the function of the thread: when creating, binding or listening on
  the socket raises, the failure is logged and the thread ends.
\<close>

definition ssh_honeypot ::
  "honeypot \<Rightarrow> string option \<Rightarrow> clock \<Rightarrow> accept_outcome list \<Rightarrow> honeypot" where
  "ssh_honeypot h bind_error now outcomes =
     (case bind_error of
        Some e \<Rightarrow> h\<lparr>logger := log_error (logger h) now (''Failed to start SSH honeypot: '' @ e) []\<rparr>
      | None \<Rightarrow>
          accept_loop
            (h\<lparr>logger := log_info (logger h) now ''Fake SSH server started on localhost:2222'' None,
               listening := True\<rparr>)
            outcomes)"






text \<open>
  A new logger on a machine where \<^verbatim>\<open>activity.log\<close> cannot be written any more (the other
  two logs can).
\<close>

definition activity_unwritable :: alert_logger where
  "activity_unwritable =
     (new_logger quiet_machine (at_time 0))
       \<lparr>write_error := (\<lambda>log_file. None)(ActivityLog \<mapsto> ''[Errno 13] Permission denied'')\<rparr>"

section \<open>The read passes on lines that raise\<close>

text \<open>
  A line as a read pass meets it in the file: a line of text, on which \<^verbatim>\<open>json.loads\<close>
  returns a document or raises \<^verbatim>\<open>json.JSONDecodeError\<close> (the lines above), or a line on which
  another exception is raised: \<^verbatim>\<open>UnicodeDecodeError\<close> when \<^verbatim>\<open>for line in f\<close> meets bytes that
  are not text, \<^verbatim>\<open>RecursionError\<close> or \<^verbatim>\<open>ValueError\<close> inside \<^verbatim>\<open>json.loads\<close> (nesting too deep, a
  number with too many digits). The passes catch \<^verbatim>\<open>json.JSONDecodeError\<close> inside the loop
  and \<^verbatim>\<open>FileNotFoundError\<close> around it, and nothing else.
\<close>

datatype file_line = Text line | Broken py_error string

type_synonym disk = "logname \<Rightarrow> file_line list option"

text \<open>The loop of \<^verbatim>\<open>get_recent_alerts\<close> and of \<^verbatim>\<open>export_logs\<close> on such lines.\<close>

fun scan_recent_file :: "real \<Rightarrow> file_line list \<Rightarrow> json list \<Rightarrow> py_error + json list" where
  "scan_recent_file cutoff_time [] recent = Inr recent"
| "scan_recent_file cutoff_time (Broken e raw # ls) recent = Inl e"
| "scan_recent_file cutoff_time (Text l # ls) recent =
     (case loads l of
        None \<Rightarrow> scan_recent_file cutoff_time ls recent
      | Some alert \<Rightarrow>
          (case py_get alert ''epoch'' (JNum 0) of
             Inl e \<Rightarrow> Inl e
           | Inr ep \<Rightarrow>
               (case py_gt ep (JNum cutoff_time) of
                  Inl e \<Rightarrow> Inl e
                | Inr newer \<Rightarrow>
                    scan_recent_file cutoff_time ls (if newer then recent @ [alert] else recent))))"

definition read_recent_file :: "disk \<Rightarrow> logname \<Rightarrow> real \<Rightarrow> py_error + json list" where
  "read_recent_file d log_file cutoff_time =
     (case d log_file of
        None \<Rightarrow> Inr []
      | Some ls \<Rightarrow> scan_recent_file cutoff_time ls [])"

definition get_recent_alerts_file :: "disk \<Rightarrow> real \<Rightarrow> int \<Rightarrow> py_error + json list" where
  "get_recent_alerts_file d time_now hours =
     (let cutoff_time = time_now - real_of_int (hours * 3600)
      in read_recent_file d AlertsLog cutoff_time)"

text \<open>The loop of \<^verbatim>\<open>get_alert_summary\<close> on such lines.\<close>

fun scan_summary_file :: "real \<Rightarrow> file_line list \<Rightarrow> summary \<Rightarrow> py_error + summary" where
  "scan_summary_file cutoff_24h [] s = Inr s"
| "scan_summary_file cutoff_24h (Broken e raw # ls) s = Inl e"
| "scan_summary_file cutoff_24h (Text l # ls) s =
     (case loads l of
        None \<Rightarrow> scan_summary_file cutoff_24h ls s
      | Some alert \<Rightarrow>
          (case summary_step cutoff_24h s alert of
             Inl e \<Rightarrow> Inl e
           | Inr s' \<Rightarrow> scan_summary_file cutoff_24h ls s'))"

definition get_alert_summary_file :: "disk \<Rightarrow> real \<Rightarrow> py_error + summary" where
  "get_alert_summary_file d time_now =
     (let cutoff_24h = time_now - 24 * 3600
      in case d AlertsLog of
           None \<Rightarrow> Inr empty_summary
         | Some ls \<Rightarrow> scan_summary_file cutoff_24h ls empty_summary)"

text \<open>The document of \<^verbatim>\<open>export_logs\<close> on such lines (an exception ends the export before
  the output file is opened).\<close>

definition export_logs_file :: "disk \<Rightarrow> clock \<Rightarrow> int \<Rightarrow> py_error + json" where
  "export_logs_file d now hours =
     (let cutoff_time = time now - real_of_int (hours * 3600) in
      case read_recent_file d AlertsLog cutoff_time of
        Inl e \<Rightarrow> Inl e
      | Inr alerts \<Rightarrow>
          (case read_recent_file d ActivityLog cutoff_time of
             Inl e \<Rightarrow> Inl e
           | Inr activities \<Rightarrow>
               Inr (JObj
                      [(''export_timestamp'', JStr (isoformat now)),
                       (''hours_exported'', JNum (real_of_int hours)),
                       (''alerts'', JArr alerts),
                       (''activities'', JArr activities),
                       (''errors'', JArr [])])))"

text \<open>The files of a logger, all of whose lines are lines of text.\<close>

definition disk_of :: "alert_logger \<Rightarrow> disk" where
  "disk_of st log_file = map_option (map Text) (files st log_file)"

text \<open>
  The files of \<open>torn_logs\<close>, and the same files when the line in the middle of the alerts
  log holds bytes that are not UTF-8.
\<close>

definition undecodable_disk :: disk where
  "undecodable_disk =
     (disk_of torn_logs)
       (AlertsLog \<mapsto>
          [Text (Stored (alert_entry (at_time 10) ''HIGH'' ''first'' [])),
           Broken UnicodeDecodeError [CHR 0xFF, CHR 0xFE, CHR ''{''],
           Text (Stored (alert_entry (at_time 20) ''MEDIUM'' ''second'' []))])"

section \<open>The appends on a console that refuses lines\<close>













section \<open>Facts about the appends\<close>

lemma log_lines_write_to_log:
  "log_lines (write_to_log st f e) g =
     (if g = f \<and> write_error st f = None then log_lines st f @ [Stored e] else log_lines st g)"
  by (auto simp: write_to_log_def log_lines_def print_def split: option.splits)

lemma write_error_write_to_log [simp]: "write_error (write_to_log st f e) = write_error st"
  by (auto simp: write_to_log_def print_def split: option.splits)

lemma log_lines_print [simp]: "log_lines (print st s) f = log_lines st f"
  by (simp add: print_def log_lines_def)

lemma write_error_print [simp]: "write_error (print st s) = write_error st"
  by (simp add: print_def)

lemma parsed_simps [simp]:
  "parsed [] = []"
  "parsed (Stored r # ls) = r # parsed ls"
  "parsed (Unparsable s # ls) = parsed ls"
  "parsed (xs @ ys) = parsed xs @ parsed ys"
  "parsed (map Stored rs) = rs"
      apply (simp_all add: parsed_def List.map_filter_simps)
   apply (simp add: List.map_filter_def)
  apply (induction rs; simp add: List.map_filter_simps)
  done

lemma parsed_map_Stored_comp [simp]: "parsed (map (Stored \<circ> f) xs) = map f xs"
  by (induction xs) simp_all

lemma scan_recent_timed:
  "\<forall>r \<in> set (parsed ls). timed r \<Longrightarrow>
   scan_recent c ls acc = Inr (acc @ [r \<leftarrow> parsed ls. c < epoch_of r])"
proof (induction ls arbitrary: acc)
  case Nil
  then show ?case by simp
next
  case (Cons l ls)
  show ?case
  proof (cases l)
    case (Unparsable s)
    with Cons show ?thesis by simp
  next
    case (Stored r)
    with Cons.prems have t: "timed r" and rest: "\<forall>r \<in> set (parsed ls). timed r"
      by simp_all
    from t obtain kvs where r: "r = JObj kvs" by (cases r) (simp_all add: timed_def)
    show ?thesis
      using Cons.IH[OF rest] t Stored r
      by (auto simp: timed_def epoch_of_def py_gt_def split: option.splits)
  qed
qed

lemma read_recent_timed:
  "\<forall>r \<in> set (parsed (log_lines st f)). timed r \<Longrightarrow>
   read_recent st f c = Inr [r \<leftarrow> parsed (log_lines st f). c < epoch_of r]"
  by (auto simp: read_recent_def log_lines_def scan_recent_timed split: option.splits)

lemma log_lines_os_commands [simp]: "log_lines (st\<lparr>os_commands := c\<rparr>) f = log_lines st f"
  by (simp add: log_lines_def)

lemma send_system_notification_keeps:
  "write_error (send_system_notification st later m) = write_error st"
  "f \<noteq> ErrorLog \<Longrightarrow> log_lines (send_system_notification st later m) f = log_lines st f"
  by (auto simp: send_system_notification_def os_system_def log_error_def Let_def
        log_lines_write_to_log split: option.splits sum.splits)

lemma send_high_priority_alert_keeps:
  "write_error (send_high_priority_alert st later ts m d) = write_error st"
  "f \<noteq> ErrorLog \<Longrightarrow> log_lines (send_high_priority_alert st later ts m d) f = log_lines st f"
  by (simp_all add: send_high_priority_alert_def Let_def send_system_notification_keeps)

lemma write_error_append [simp]: "write_error (append st ev) = write_error st"
  by (cases ev) (simp_all add: log_alert_def log_info_def log_error_def Let_def
        send_high_priority_alert_keeps)

lemma write_error_log_alert [simp]:
  "write_error (log_alert st now later severity message details) = write_error st"
  using write_error_append[of st "Alert now later severity message details"] by simp

lemma write_error_run [simp]: "write_error (foldl append st evs) = write_error st"
  by (induction evs arbitrary: st) simp_all

lemma alerts_log_append:
  "log_lines (append st ev) AlertsLog =
     log_lines st AlertsLog @
       (if is_alert ev \<and> write_error st AlertsLog = None then [Stored (entry_of ev)] else [])"
  by (cases ev) (simp_all add: log_alert_def log_info_def log_error_def Let_def
        send_high_priority_alert_keeps log_lines_write_to_log)

lemma alerts_log_run:
  "write_error st AlertsLog = None \<Longrightarrow>
   log_lines (foldl append st evs) AlertsLog =
     log_lines st AlertsLog @ map Stored (map entry_of (filter is_alert evs))"
  by (induction evs arbitrary: st) (simp_all add: alerts_log_append)

lemma is_alert_type:
  "is_alert ev \<longleftrightarrow> field ''type'' (entry_of ev) = Some (JStr ''SECURITY_ALERT'')"
  by (cases ev) (simp_all add: alert_entry_def info_entry_def error_entry_def)

lemma timed_entry_of [simp]: "timed (entry_of ev)"
  by (cases ev) (simp_all add: alert_entry_def info_entry_def error_entry_def timed_def)

lemma window_exists:
  fixes t :: real
  shows "\<exists>H::int. \<forall>h\<ge>H. \<forall>e \<in> set es. t - real_of_int (h * 3600) < e"
proof (induction es)
  case Nil
  then show ?case by simp
next
  case (Cons x es)
  then obtain H where H: "\<forall>h\<ge>H. \<forall>e \<in> set es. t - real_of_int (h * 3600) < e" by blast
  define K where "K = max H (\<lceil>(t - x) / 3600\<rceil> + 1)"
  have "\<forall>h\<ge>K. \<forall>e \<in> set (x # es). t - real_of_int (h * 3600) < e"
  proof (intro allI impI ballI)
    fix h e assume h: "K \<le> h" and e: "e \<in> set (x # es)"
    show "t - real_of_int (h * 3600) < e"
    proof (cases "e = x")
      case True
      have "(t - x) / 3600 \<le> real_of_int \<lceil>(t - x) / 3600\<rceil>" by linarith
      moreover have "real_of_int \<lceil>(t - x) / 3600\<rceil> + 1 \<le> real_of_int h"
        using h unfolding K_def by linarith
      ultimately have "(t - x) / 3600 < real_of_int h" by linarith
      then have "t - x < real_of_int h * 3600" by (simp add: field_simps)
      with True show ?thesis by simp
    next
      case False
      with e have "e \<in> set es" by simp
      moreover have "H \<le> h" using h unfolding K_def by linarith
      ultimately show ?thesis using H by blast
    qed
  qed
  then show ?case by blast
qed

section \<open>C1: recent alerts after a sequence of appends\<close>

text \<open>
  C1. On a logger whose alerts log starts empty and can be written, after any sequence of
  appends \<^verbatim>\<open>get_recent_alerts(hours)\<close> returns exactly the appended records of type
  \<^verbatim>\<open>SECURITY_ALERT\<close> whose epoch is greater than \<^verbatim>\<open>now - hours * 3600\<close>, in the order of the
  appends; for every window that is large enough it returns all the appended
  \<^verbatim>\<open>SECURITY_ALERT\<close> records; and for three alerts with epochs \<open>t - 3600 - 1\<close>,
  \<open>t - 3600 + 1\<close> and \<open>t\<close> the one-hour window at time \<open>t\<close> returns the last two.
\<close>

theorem recent_alerts_after_appends:
  assumes fresh: "log_lines st AlertsLog = []"
      and ok: "write_error st AlertsLog = None"
  shows "(get_recent_alerts (foldl append st evs) t hours =
            Inr [e \<leftarrow> map entry_of evs.
                   field ''type'' e = Some (JStr ''SECURITY_ALERT'')
                   \<and> t - real_of_int (hours * 3600) < epoch_of e])
       \<and> (\<exists>H. \<forall>h\<ge>H. get_recent_alerts (foldl append st evs) t h =
            Inr [e \<leftarrow> map entry_of evs. field ''type'' e = Some (JStr ''SECURITY_ALERT'')])
       \<and> (get_recent_alerts
            (foldl append st
               [Alert (c1\<lparr>time := t - 3600 - 1\<rparr>) l1 s1 m1 d1,
                Alert (c2\<lparr>time := t - 3600 + 1\<rparr>) l2 s2 m2 d2,
                Alert (c3\<lparr>time := t\<rparr>) l3 s3 m3 d3]) t 1 =
            Inr [alert_entry (c2\<lparr>time := t - 3600 + 1\<rparr>) s2 m2 d2,
                 alert_entry (c3\<lparr>time := t\<rparr>) s3 m3 d3])"
proof -
  have gen: "get_recent_alerts (foldl append st evs') t h =
            Inr [e \<leftarrow> map entry_of evs'.
                   field ''type'' e = Some (JStr ''SECURITY_ALERT'')
                   \<and> t - real_of_int (h * 3600) < epoch_of e]" for evs' h
  proof -
    have lines: "log_lines (foldl append st evs') AlertsLog =
                   map Stored (map entry_of (filter is_alert evs'))"
      using alerts_log_run[OF ok, of evs'] fresh by simp
    have "read_recent (foldl append st evs') AlertsLog (t - real_of_int (h * 3600)) =
            Inr [r \<leftarrow> map entry_of (filter is_alert evs'). t - real_of_int (h * 3600) < epoch_of r]"
      by (subst read_recent_timed) (auto simp: lines)
    also have "[r \<leftarrow> map entry_of (filter is_alert evs'). t - real_of_int (h * 3600) < epoch_of r] =
               [e \<leftarrow> map entry_of evs'.
                   field ''type'' e = Some (JStr ''SECURITY_ALERT'')
                   \<and> t - real_of_int (h * 3600) < epoch_of e]"
      by (induction evs') (auto simp: is_alert_type)
    finally show ?thesis by (simp add: get_recent_alerts_def)
  qed
  obtain H where H: "\<forall>h\<ge>H. \<forall>e \<in> set (map epoch_of (map entry_of evs)). t - real_of_int (h * 3600) < e"
    using window_exists by blast
  have unb: "\<forall>h\<ge>H. get_recent_alerts (foldl append st evs) t h =
            Inr [e \<leftarrow> map entry_of evs. field ''type'' e = Some (JStr ''SECURITY_ALERT'')]"
  proof (intro allI impI)
    fix h assume "H \<le> h"
    with H have "\<forall>e \<in> set (map entry_of evs). t - real_of_int (h * 3600) < epoch_of e" by simp
    then have "[e \<leftarrow> map entry_of evs.
                   field ''type'' e = Some (JStr ''SECURITY_ALERT'')
                   \<and> t - real_of_int (h * 3600) < epoch_of e] =
               [e \<leftarrow> map entry_of evs. field ''type'' e = Some (JStr ''SECURITY_ALERT'')]"
      by (intro filter_cong) auto
    with gen[of evs h] show "get_recent_alerts (foldl append st evs) t h =
            Inr [e \<leftarrow> map entry_of evs. field ''type'' e = Some (JStr ''SECURITY_ALERT'')]"
      by simp
  qed
  have win: "get_recent_alerts
            (foldl append st
               [Alert (c1\<lparr>time := t - 3600 - 1\<rparr>) l1 s1 m1 d1,
                Alert (c2\<lparr>time := t - 3600 + 1\<rparr>) l2 s2 m2 d2,
                Alert (c3\<lparr>time := t\<rparr>) l3 s3 m3 d3]) t 1 =
            Inr [alert_entry (c2\<lparr>time := t - 3600 + 1\<rparr>) s2 m2 d2,
                 alert_entry (c3\<lparr>time := t\<rparr>) s3 m3 d3]"
    by (subst gen) (simp add: alert_entry_def epoch_of_def)
  from gen[of evs hours] unb win show ?thesis by blast
qed


theorem recent_alerts_after_appends_witness:
  "log_lines (new_logger quiet_machine (at_time 0)) AlertsLog = []
   \<and> write_error (new_logger quiet_machine (at_time 0)) AlertsLog = None
   \<and> get_recent_alerts
         (foldl append (new_logger quiet_machine (at_time 0))
            [Alert (at_time 100) (at_time 101) ''HIGH'' ''first'' ''a'',
             Info (at_time 200) ''note'' None,
             Alert (at_time 5000) (at_time 5001) ''MEDIUM'' ''second'' ''b''])
         7200 1 =
       Inr [alert_entry (at_time 5000) ''MEDIUM'' ''second'' ''b'']"
proof -
  have fresh: "log_lines (new_logger quiet_machine (at_time 0)) AlertsLog = []"
    by (simp add: new_logger_def quiet_machine_def log_info_def write_to_log_def log_lines_def)
  have ok: "write_error (new_logger quiet_machine (at_time 0)) AlertsLog = None"
    by (simp add: new_logger_def quiet_machine_def log_info_def)
  show ?thesis
    using fresh ok
      recent_alerts_after_appends [OF fresh ok,
        of "[Alert (at_time 100) (at_time 101) ''HIGH'' ''first'' ''a'',
             Info (at_time 200) ''note'' None,
             Alert (at_time 5000) (at_time 5001) ''MEDIUM'' ''second'' ''b'']" 7200 1]
    by (simp add: alert_entry_def info_entry_def epoch_of_def at_time_def)
qed

lemma graded_cases:
  assumes "graded r"
  obtains kvs where "r = JObj kvs"
    and "map_of kvs ''severity'' = None \<or> (\<exists>x. map_of kvs ''severity'' = Some (JStr x))"
    and "map_of kvs ''epoch'' = None \<or> (\<exists>v e. map_of kvs ''epoch'' = Some v \<and> py_number v = Some e)"
proof -
  from assms obtain kvs where r: "r = JObj kvs" by (cases r) (simp_all add: graded_def timed_def)
  from assms r have "map_of kvs ''severity'' = None \<or> (\<exists>x. map_of kvs ''severity'' = Some (JStr x))"
    by (cases "map_of kvs ''severity''") (auto simp: graded_def elim: is_str.elims)
  moreover from assms r have "map_of kvs ''epoch'' = None \<or> (\<exists>v e. map_of kvs ''epoch'' = Some v \<and> py_number v = Some e)"
    by (cases "map_of kvs ''epoch''") (auto simp: graded_def timed_def)
  ultimately show ?thesis using r that by blast
qed

lemma py_get_timed:
  "timed r \<Longrightarrow> \<exists>v. py_get r ''epoch'' (JNum 0) = Inr v \<and> py_number v = Some (epoch_of r)"
  by (cases r) (auto simp: timed_def epoch_of_def split: option.splits)

lemma py_get_severity_graded:
  "graded r \<Longrightarrow> \<exists>v. py_get r ''severity'' (JStr []) = Inr v \<and> py_upper v = Inr (severity_of r)"
  by (erule graded_cases) (auto simp: severity_of_def)

lemma summary_step_graded:
  assumes g: "graded r" and l: "\<And>p. last_alert s = Some p \<Longrightarrow> timed p"
  shows "\<exists>s'. summary_step c s r = Inr s'
           \<and> total_alerts s' = total_alerts s + 1
           \<and> high_severity s' = high_severity s + (if severity_of r = ''HIGH'' then 1 else 0)
           \<and> medium_severity s' = medium_severity s + (if severity_of r = ''MEDIUM'' then 1 else 0)
           \<and> low_severity s' = low_severity s + (if severity_of r = ''LOW'' then 1 else 0)
           \<and> last_24h s' = last_24h s + (if c < epoch_of r then 1 else 0)
           \<and> last_alert s' = keep_newest (last_alert s) r"
proof -
  from g have t: "timed r" by (simp add: graded_def)
  from py_get_severity_graded[OF g] obtain sv where
    sv: "py_get r ''severity'' (JStr []) = Inr sv" "py_upper sv = Inr (severity_of r)" by blast
  from py_get_timed[OF t] obtain ev where
    ev: "py_get r ''epoch'' (JNum 0) = Inr ev" "py_number ev = Some (epoch_of r)" by blast
  have gt: "py_gt ev (JNum c) = Inr (c < epoch_of r)" using ev by (simp add: py_gt_def)
  show ?thesis
  proof (cases "last_alert s")
    case None
    then show ?thesis
      using sv ev gt by (simp add: summary_step_def Let_def keep_newest_def)
  next
    case (Some p)
    from l[OF Some] py_get_timed obtain pv where
      pv: "py_get p ''epoch'' (JNum 0) = Inr pv" "py_number pv = Some (epoch_of p)" by blast
    have gt2: "py_gt ev pv = Inr (epoch_of p < epoch_of r)" using ev pv by (simp add: py_gt_def)
    show ?thesis
      using Some sv ev gt pv gt2 by (simp add: summary_step_def Let_def keep_newest_def)
  qed
qed

lemma keep_newest_timed:
  "timed r \<Longrightarrow> (\<And>p. b = Some p \<Longrightarrow> timed p) \<Longrightarrow> keep_newest b r = Some q \<Longrightarrow> timed q"
  by (auto simp: keep_newest_def split: option.splits if_splits)

lemma scan_summary_graded:
  assumes "\<forall>r \<in> set (parsed ls). graded r" and "\<And>p. last_alert s = Some p \<Longrightarrow> timed p"
  shows "\<exists>s'. scan_summary c ls s = Inr s'
           \<and> total_alerts s' = total_alerts s + length (parsed ls)
           \<and> high_severity s' = high_severity s + length [r \<leftarrow> parsed ls. severity_of r = ''HIGH'']
           \<and> medium_severity s' = medium_severity s + length [r \<leftarrow> parsed ls. severity_of r = ''MEDIUM'']
           \<and> low_severity s' = low_severity s + length [r \<leftarrow> parsed ls. severity_of r = ''LOW'']
           \<and> last_24h s' = last_24h s + length [r \<leftarrow> parsed ls. c < epoch_of r]
           \<and> last_alert s' = foldl keep_newest (last_alert s) (parsed ls)"
  using assms
proof (induction ls arbitrary: s)
  case Nil
  then show ?case by simp
next
  case (Cons l ls)
  show ?case
  proof (cases l)
    case (Unparsable x)
    with Cons show ?thesis by simp
  next
    case (Stored r)
    with Cons.prems have g: "graded r" and rest: "\<forall>r \<in> set (parsed ls). graded r" by simp_all
    from summary_step_graded[OF g Cons.prems(2), where c = c] obtain s1 where
      s1: "summary_step c s r = Inr s1"
          "total_alerts s1 = total_alerts s + 1"
          "high_severity s1 = high_severity s + (if severity_of r = ''HIGH'' then 1 else 0)"
          "medium_severity s1 = medium_severity s + (if severity_of r = ''MEDIUM'' then 1 else 0)"
          "low_severity s1 = low_severity s + (if severity_of r = ''LOW'' then 1 else 0)"
          "last_24h s1 = last_24h s + (if c < epoch_of r then 1 else 0)"
          "last_alert s1 = keep_newest (last_alert s) r"
      by blast
    have t1: "\<And>p. last_alert s1 = Some p \<Longrightarrow> timed p"
      using keep_newest_timed[of r "last_alert s"] g Cons.prems(2) s1(7)
      by (auto simp: graded_def)
    from Cons.IH[OF rest t1] obtain s' where
      s': "scan_summary c ls s1 = Inr s'"
          "total_alerts s' = total_alerts s1 + length (parsed ls)"
          "high_severity s' = high_severity s1 + length [r \<leftarrow> parsed ls. severity_of r = ''HIGH'']"
          "medium_severity s' = medium_severity s1 + length [r \<leftarrow> parsed ls. severity_of r = ''MEDIUM'']"
          "low_severity s' = low_severity s1 + length [r \<leftarrow> parsed ls. severity_of r = ''LOW'']"
          "last_24h s' = last_24h s1 + length [r \<leftarrow> parsed ls. c < epoch_of r]"
          "last_alert s' = foldl keep_newest (last_alert s1) (parsed ls)"
      by blast
    show ?thesis
      using Stored s1 s' by simp
  qed
qed

lemma foldl_keep_newest_split:
  "rs \<noteq> [] \<Longrightarrow>
   \<exists>pre q post. rs = pre @ q # post \<and> foldl keep_newest None rs = Some q
      \<and> (\<forall>y \<in> set pre. epoch_of y < epoch_of q) \<and> (\<forall>y \<in> set post. epoch_of y \<le> epoch_of q)"
proof (induction rs rule: rev_induct)
  case Nil
  then show ?case by simp
next
  case (snoc x xs)
  show ?case
  proof (cases "xs = []")
    case True
    then have "[x] = [] @ x # [] \<and> foldl keep_newest None [x] = Some x" by (simp add: keep_newest_def)
    with True show ?thesis by fastforce
  next
    case False
    from snoc.IH[OF False] obtain pre q post where
      IH: "xs = pre @ q # post" "foldl keep_newest None xs = Some q"
          "\<forall>y \<in> set pre. epoch_of y < epoch_of q" "\<forall>y \<in> set post. epoch_of y \<le> epoch_of q"
      by blast
    show ?thesis
    proof (cases "epoch_of q < epoch_of x")
      case True
      have "xs @ [x] = xs @ x # []" by simp
      moreover have "foldl keep_newest None (xs @ [x]) = Some x"
        using IH(2) True by (simp add: keep_newest_def)
      moreover have "\<forall>y \<in> set xs. epoch_of y < epoch_of x"
        using IH True by auto
      ultimately have "xs @ [x] = xs @ x # [] \<and> foldl keep_newest None (xs @ [x]) = Some x
          \<and> (\<forall>y \<in> set xs. epoch_of y < epoch_of x) \<and> (\<forall>y \<in> set []. epoch_of y \<le> epoch_of x)"
        by simp
      then show ?thesis by blast
    next
      case False
      have "xs @ [x] = pre @ q # (post @ [x])" using IH(1) by simp
      moreover have "foldl keep_newest None (xs @ [x]) = Some q"
        using IH(2) False by (simp add: keep_newest_def)
      moreover have "\<forall>y \<in> set (post @ [x]). epoch_of y \<le> epoch_of q"
        using IH(4) False by auto
      ultimately show ?thesis using IH(3) by blast
    qed
  qed
qed

lemma find_app:
  "find P (xs @ ys) = (case find P xs of None \<Rightarrow> find P ys | Some x \<Rightarrow> Some x)"
  by (induction xs) simp_all

lemma find_first_max:
  assumes "rs = pre @ q # post"
      and "\<forall>y \<in> set pre. epoch_of y < epoch_of q" and "\<forall>y \<in> set post. epoch_of y \<le> epoch_of q"
  shows "find (\<lambda>r. \<forall>y \<in> set rs. epoch_of y \<le> epoch_of r) rs = Some q"
proof -
  have q: "\<forall>y \<in> set rs. epoch_of y \<le> epoch_of q" using assms by auto
  have "find (\<lambda>r. \<forall>y \<in> set rs. epoch_of y \<le> epoch_of r) pre = None"
    using assms by (force simp: find_None_iff)
  then show ?thesis using q assms(1)
    by (simp add: find_app)
qed

lemma foldl_keep_newest_find:
  "foldl keep_newest None rs = find (\<lambda>r. \<forall>y \<in> set rs. epoch_of y \<le> epoch_of r) rs"
proof (cases "rs = []")
  case True
  then show ?thesis by simp
next
  case False
  from foldl_keep_newest_split[OF False] obtain pre q post where
    "rs = pre @ q # post" "foldl keep_newest None rs = Some q"
    "\<forall>y \<in> set pre. epoch_of y < epoch_of q" "\<forall>y \<in> set post. epoch_of y \<le> epoch_of q"
    by blast
  then show ?thesis using find_first_max[of rs pre q post] by simp
qed

lemma get_alert_summary_graded:
  assumes "\<forall>r \<in> set (parsed (log_lines st AlertsLog)). graded r"
  shows "\<exists>s. get_alert_summary st t = Inr s
           \<and> total_alerts s = length (parsed (log_lines st AlertsLog))
           \<and> high_severity s = length [r \<leftarrow> parsed (log_lines st AlertsLog). severity_of r = ''HIGH'']
           \<and> medium_severity s = length [r \<leftarrow> parsed (log_lines st AlertsLog). severity_of r = ''MEDIUM'']
           \<and> low_severity s = length [r \<leftarrow> parsed (log_lines st AlertsLog). severity_of r = ''LOW'']
           \<and> last_24h s = length [r \<leftarrow> parsed (log_lines st AlertsLog). t - 24 * 3600 < epoch_of r]
           \<and> last_alert s = foldl keep_newest None (parsed (log_lines st AlertsLog))"
proof (cases "files st AlertsLog")
  case None
  then show ?thesis by (simp add: get_alert_summary_def log_lines_def empty_summary_def)
next
  case (Some ls)
  with assms have g: "\<forall>r \<in> set (parsed ls). graded r" by (simp add: log_lines_def)
  have e: "\<And>p. last_alert empty_summary = Some p \<Longrightarrow> timed p" by (simp add: empty_summary_def)
  from scan_summary_graded[OF g e, where c = "t - 24 * 3600"] obtain s' where
    s': "scan_summary (t - 24 * 3600) ls empty_summary = Inr s'"
        "total_alerts s' = total_alerts empty_summary + length (parsed ls)"
        "high_severity s' = high_severity empty_summary + length [r \<leftarrow> parsed ls. severity_of r = ''HIGH'']"
        "medium_severity s' = medium_severity empty_summary + length [r \<leftarrow> parsed ls. severity_of r = ''MEDIUM'']"
        "low_severity s' = low_severity empty_summary + length [r \<leftarrow> parsed ls. severity_of r = ''LOW'']"
        "last_24h s' = last_24h empty_summary + length [r \<leftarrow> parsed ls. t - 24 * 3600 < epoch_of r]"
        "last_alert s' = foldl keep_newest (last_alert empty_summary) (parsed ls)"
    by blast
  have z: "total_alerts empty_summary = 0" "high_severity empty_summary = 0"
      "medium_severity empty_summary = 0" "low_severity empty_summary = 0"
      "last_24h empty_summary = 0" "last_alert empty_summary = None"
    by (simp_all add: empty_summary_def)
  have "get_alert_summary st t = Inr s'"
    using Some s'(1) by (simp add: get_alert_summary_def)
  then show ?thesis
    using s'(2-7) Some unfolding z log_lines_def by simp
qed

lemma graded_alert_entry [simp]: "graded (alert_entry c sev m d)"
  by (simp add: graded_def timed_def alert_entry_def)

lemma severity_of_alert_entry [simp]: "severity_of (alert_entry c sev m d) = map upper_char sev"
  by (simp add: severity_of_def alert_entry_def)

lemma epoch_of_alert_entry [simp]: "epoch_of (alert_entry c sev m d) = time c"
  by (simp add: epoch_of_def alert_entry_def)

section \<open>C2: the severity counters of the summary\<close>

text \<open>
  C2 (amended). On an alerts log whose records are dicts with a string severity (or none)
  and a numeric epoch (or none), \<^verbatim>\<open>get_alert_summary\<close> does not fail; \<open>total_alerts\<close> counts
  every record that loads, and the three buckets count the records whose severity,
  put in upper case, is \<^verbatim>\<open>HIGH\<close>, \<^verbatim>\<open>MEDIUM\<close> or \<^verbatim>\<open>LOW\<close>: a record with any other severity is
  in the total and in no bucket. For alerts of severities HIGH, HIGH, MEDIUM, LOW,
  UNKNOWN the summary has total 5, high 2, medium 1, low 1.
\<close>

theorem summary_counts_by_upper_severity:
  assumes "\<forall>r \<in> set (parsed (log_lines st AlertsLog)). graded r"
  shows "(\<exists>s. get_alert_summary st t = Inr s
            \<and> total_alerts s = length (parsed (log_lines st AlertsLog))
            \<and> high_severity s = length [r \<leftarrow> parsed (log_lines st AlertsLog). severity_of r = ''HIGH'']
            \<and> medium_severity s = length [r \<leftarrow> parsed (log_lines st AlertsLog). severity_of r = ''MEDIUM'']
            \<and> low_severity s = length [r \<leftarrow> parsed (log_lines st AlertsLog). severity_of r = ''LOW''])
       \<and> (log_lines st AlertsLog =
             [Stored (alert_entry c1 ''HIGH'' m1 d1), Stored (alert_entry c2 ''HIGH'' m2 d2),
              Stored (alert_entry c3 ''MEDIUM'' m3 d3), Stored (alert_entry c4 ''LOW'' m4 d4),
              Stored (alert_entry c5 ''UNKNOWN'' m5 d5)] \<longrightarrow>
           (\<exists>s. get_alert_summary st t = Inr s
              \<and> total_alerts s = 5 \<and> high_severity s = 2
              \<and> medium_severity s = 1 \<and> low_severity s = 1))"
proof -
  from get_alert_summary_graded[OF assms, of t] obtain s where
    s: "get_alert_summary st t = Inr s"
       "total_alerts s = length (parsed (log_lines st AlertsLog))"
       "high_severity s = length [r \<leftarrow> parsed (log_lines st AlertsLog). severity_of r = ''HIGH'']"
       "medium_severity s = length [r \<leftarrow> parsed (log_lines st AlertsLog). severity_of r = ''MEDIUM'']"
       "low_severity s = length [r \<leftarrow> parsed (log_lines st AlertsLog). severity_of r = ''LOW'']"
    by blast
  have five: "total_alerts s = 5 \<and> high_severity s = 2 \<and> medium_severity s = 1 \<and> low_severity s = 1"
    if "log_lines st AlertsLog =
             [Stored (alert_entry c1 ''HIGH'' m1 d1), Stored (alert_entry c2 ''HIGH'' m2 d2),
              Stored (alert_entry c3 ''MEDIUM'' m3 d3), Stored (alert_entry c4 ''LOW'' m4 d4),
              Stored (alert_entry c5 ''UNKNOWN'' m5 d5)]"
    using s(2-5) unfolding that by (simp add: upper_char_def)
  from s five show ?thesis by blast
qed

lemma new_logger_quiet:
  "log_lines (new_logger quiet_machine c) AlertsLog = []"
  "write_error (new_logger quiet_machine c) = (\<lambda>f. None)"
  by (simp_all add: new_logger_def quiet_machine_def log_info_def write_to_log_def log_lines_def)

lemma five_alerts_lines:
  "log_lines five_alerts AlertsLog =
     [Stored (alert_entry (at_time 1) ''HIGH'' ''a'' []), Stored (alert_entry (at_time 2) ''HIGH'' ''b'' []),
      Stored (alert_entry (at_time 3) ''MEDIUM'' ''c'' []), Stored (alert_entry (at_time 4) ''LOW'' ''d'' []),
      Stored (alert_entry (at_time 5) ''UNKNOWN'' ''e'' [])]"
  unfolding five_alerts_def
  by (subst alerts_log_run) (simp_all add: new_logger_quiet)

theorem summary_counts_by_upper_severity_witness:
  "list_all graded (parsed (log_lines five_alerts AlertsLog))
   \<and> (\<exists>s. get_alert_summary five_alerts 10 = Inr s
          \<and> total_alerts s = 5 \<and> high_severity s = 2 \<and> medium_severity s = 1 \<and> low_severity s = 1)"
proof -
  have g: "\<forall>r \<in> set (parsed (log_lines five_alerts AlertsLog)). graded r"
    by (simp add: five_alerts_lines)
  from summary_counts_by_upper_severity[OF g, of 10 "at_time 1" "''a''" "[]" "at_time 2" "''b''" "[]"
      "at_time 3" "''c''" "[]" "at_time 4" "''d''" "[]" "at_time 5" "''e''" "[]"]
  show ?thesis using g five_alerts_lines unfolding list_all_iff by blast
qed

text \<open>
  The claim as stated fails: the severity \<^verbatim>\<open>high\<close> is not one of the three names, yet the
  comparison after \<^verbatim>\<open>.upper()\<close> counts the record in the high bucket.
\<close>

theorem summary_lowercase_severity_counterexample:
  "''high'' \<notin> {''HIGH'', ''MEDIUM'', ''LOW''}
   \<and> get_alert_summary
        (log_alert (new_logger quiet_machine (at_time 0)) (at_time 10) (at_time 11)
           ''high'' ''probe'' []) 20 =
      Inr \<lparr>total_alerts = 1, high_severity = 1, medium_severity = 0, low_severity = 0,
           last_24h = 1, last_alert = Some (alert_entry (at_time 10) ''high'' ''probe'' [])\<rparr>"
  by (simp add: get_alert_summary_def log_alert_def new_logger_def quiet_machine_def log_info_def
        write_to_log_def Let_def summary_step_def alert_entry_def py_gt_def upper_char_def
        empty_summary_def at_time_def)

lemma tied_alerts_lines:
  "log_lines tied_alerts AlertsLog =
     [Stored (alert_entry (at_time 50) ''LOW'' ''earlier'' []),
      Stored (alert_entry (at_time 50) ''LOW'' ''later'' [])]"
  unfolding tied_alerts_def
  by (subst alerts_log_run) (simp_all add: new_logger_quiet)

section \<open>C3: the last alert of the summary\<close>

text \<open>
  C3 (amended). On an alerts log whose records are dicts with a string severity (or none)
  and a numeric epoch (or none), \<open>last_alert\<close> of \<^verbatim>\<open>get_alert_summary\<close> is the first record,
  in file order, whose epoch is the maximum over all records that load (none when no
  record loads): every record before it has a smaller epoch and no record after it a
  greater one, so on a tie the earliest record is kept.
\<close>

theorem last_alert_first_maximum:
  assumes "\<forall>r \<in> set (parsed (log_lines st AlertsLog)). graded r"
  shows "\<exists>s. get_alert_summary st t = Inr s
           \<and> last_alert s =
               find (\<lambda>r. \<forall>y \<in> set (parsed (log_lines st AlertsLog)). epoch_of y \<le> epoch_of r)
                 (parsed (log_lines st AlertsLog))
           \<and> (parsed (log_lines st AlertsLog) \<noteq> [] \<longrightarrow>
                (\<exists>pre q post. parsed (log_lines st AlertsLog) = pre @ q # post
                    \<and> last_alert s = Some q
                    \<and> (\<forall>y \<in> set pre. epoch_of y < epoch_of q)
                    \<and> (\<forall>y \<in> set post. epoch_of y \<le> epoch_of q)))"
proof -
  from get_alert_summary_graded[OF assms, of t] obtain s where
    s: "get_alert_summary st t = Inr s"
       "last_alert s = foldl keep_newest None (parsed (log_lines st AlertsLog))"
    by blast
  have "last_alert s =
               find (\<lambda>r. \<forall>y \<in> set (parsed (log_lines st AlertsLog)). epoch_of y \<le> epoch_of r)
                 (parsed (log_lines st AlertsLog))"
    using s(2) by (simp add: foldl_keep_newest_find)
  moreover have "parsed (log_lines st AlertsLog) \<noteq> [] \<longrightarrow>
                (\<exists>pre q post. parsed (log_lines st AlertsLog) = pre @ q # post
                    \<and> last_alert s = Some q
                    \<and> (\<forall>y \<in> set pre. epoch_of y < epoch_of q)
                    \<and> (\<forall>y \<in> set post. epoch_of y \<le> epoch_of q))"
    using foldl_keep_newest_split[of "parsed (log_lines st AlertsLog)"] s(2) by simp
  ultimately show ?thesis using s(1) by blast
qed

theorem last_alert_first_maximum_witness:
  "list_all graded (parsed (log_lines tied_alerts AlertsLog))
   \<and> (\<exists>s. get_alert_summary tied_alerts 100 = Inr s
          \<and> last_alert s = Some (alert_entry (at_time 50) ''LOW'' ''earlier'' []))"
proof -
  have g: "\<forall>r \<in> set (parsed (log_lines tied_alerts AlertsLog)). graded r"
    by (simp add: tied_alerts_lines)
  from last_alert_first_maximum[OF g, of 100]
  show ?thesis using g by (auto simp: tied_alerts_lines list_all_iff)
qed

text \<open>
  The claim as stated fails: of two alerts with the same epoch the summary keeps the
  earlier one, since the later one is not strictly newer.
\<close>

theorem last_alert_tie_counterexample:
  "log_lines tied_alerts AlertsLog =
     [Stored (alert_entry (at_time 50) ''LOW'' ''earlier'' []),
      Stored (alert_entry (at_time 50) ''LOW'' ''later'' [])]
   \<and> get_alert_summary tied_alerts 100 =
      Inr \<lparr>total_alerts = 2, high_severity = 0, medium_severity = 0, low_severity = 2,
           last_24h = 2, last_alert = Some (alert_entry (at_time 50) ''LOW'' ''earlier'' [])\<rparr>
   \<and> alert_entry (at_time 50) ''LOW'' ''earlier'' [] \<noteq> alert_entry (at_time 50) ''LOW'' ''later'' []"
proof -
  have f: "files tied_alerts AlertsLog =
     Some [Stored (alert_entry (at_time 50) ''LOW'' ''earlier'' []),
      Stored (alert_entry (at_time 50) ''LOW'' ''later'' [])]"
    by (simp add: tied_alerts_def log_alert_def new_logger_def quiet_machine_def log_info_def
        write_to_log_def Let_def)
  show ?thesis
    using tied_alerts_lines f
    by (simp add: get_alert_summary_def Let_def summary_step_def alert_entry_def py_gt_def
        upper_char_def empty_summary_def at_time_def)
qed

lemma export_logs_timed:
  assumes "\<forall>r \<in> set (parsed (log_lines st AlertsLog)). timed r"
      and "\<forall>r \<in> set (parsed (log_lines st ActivityLog)). timed r"
  shows "export_logs st now later output_file hours =
           Inr (JObj
                  [(''export_timestamp'', JStr (isoformat now)),
                   (''hours_exported'', JNum (real_of_int hours)),
                   (''alerts'', JArr [r \<leftarrow> parsed (log_lines st AlertsLog).
                                       time now - real_of_int (hours * 3600) < epoch_of r]),
                   (''activities'', JArr [r \<leftarrow> parsed (log_lines st ActivityLog).
                                       time now - real_of_int (hours * 3600) < epoch_of r]),
                   (''errors'', JArr [])],
                log_info st later (''Exported logs to '' @ output_file) None)"
  using read_recent_timed[OF assms(1)] read_recent_timed[OF assms(2)]
  by (simp add: export_logs_def Let_def)

section \<open>C8: a malformed line between two records\<close>

lemma scan_recent_file_Text [simp]:
  "scan_recent_file c (map Text ls) acc = scan_recent c ls acc"
  by (induction c ls acc rule: scan_recent.induct) (simp_all split: option.splits sum.splits)

lemma scan_summary_file_Text [simp]:
  "scan_summary_file c (map Text ls) s = scan_summary c ls s"
  by (induction c ls s rule: scan_summary.induct) (simp_all split: option.splits sum.splits)

lemma read_recent_file_disk_of [simp]:
  "read_recent_file (disk_of st) f c = read_recent st f c"
  by (simp add: read_recent_file_def read_recent_def disk_of_def split: option.splits)

lemma passes_on_disk_of:
  "get_recent_alerts_file (disk_of st) t hours = get_recent_alerts st t hours"
  "get_alert_summary_file (disk_of st) t = get_alert_summary st t"
  "export_logs_file (disk_of st) now hours = map_sum id fst (export_logs st now later output_file hours)"
  by (simp_all add: get_recent_alerts_file_def get_recent_alerts_def get_alert_summary_file_def
        get_alert_summary_def export_logs_file_def export_logs_def disk_of_def Let_def
        split: option.splits sum.splits)

lemma read_recent_file_timed:
  assumes "d f = Some (map Text ls)" and "\<forall>r \<in> set (parsed ls). timed r"
  shows "read_recent_file d f c = Inr [r \<leftarrow> parsed ls. c < epoch_of r]"
  using assms by (simp add: read_recent_file_def scan_recent_timed)

text \<open>
  C8 (amended). When the alerts log holds one line on which \<^verbatim>\<open>json.loads\<close> raises
  \<^verbatim>\<open>json.JSONDecodeError\<close> between two well-formed records, no read pass fails and each
  goes through exactly the two records: \<^verbatim>\<open>get_recent_alerts\<close> and the \<^verbatim>\<open>alerts\<close> of
  \<^verbatim>\<open>export_logs\<close> are the two records, less those outside the time window (both, when both
  are inside), and \<^verbatim>\<open>get_alert_summary\<close> has a total of 2 with buckets that count the two
  records only. (\<^verbatim>\<open>export_logs\<close> also reads the activity log, here lines of text whose
  records are dicts with numeric epochs.)
\<close>

theorem malformed_line_is_skipped:
  assumes lines: "d AlertsLog = Some [Text (Stored r1), Text (Unparsable x), Text (Stored r2)]"
      and g1: "graded r1" and g2: "graded r2"
  shows "get_recent_alerts_file d t hours =
           Inr [r \<leftarrow> [r1, r2]. t - real_of_int (hours * 3600) < epoch_of r]
       \<and> (t - real_of_int (hours * 3600) < epoch_of r1 \<and> t - real_of_int (hours * 3600) < epoch_of r2
            \<longrightarrow> get_recent_alerts_file d t hours = Inr [r1, r2])
       \<and> (\<exists>s. get_alert_summary_file d t = Inr s
              \<and> total_alerts s = 2
              \<and> high_severity s = length [r \<leftarrow> [r1, r2]. severity_of r = ''HIGH'']
              \<and> medium_severity s = length [r \<leftarrow> [r1, r2]. severity_of r = ''MEDIUM'']
              \<and> low_severity s = length [r \<leftarrow> [r1, r2]. severity_of r = ''LOW'']
              \<and> last_24h s = length [r \<leftarrow> [r1, r2]. t - 24 * 3600 < epoch_of r])
       \<and> (d ActivityLog = Some (map Text activity) \<and> (\<forall>r \<in> set (parsed activity). timed r) \<longrightarrow>
            (\<exists>doc. export_logs_file d now hours = Inr doc
               \<and> field ''alerts'' doc =
                   Some (JArr [r \<leftarrow> [r1, r2]. time now - real_of_int (hours * 3600) < epoch_of r])))"
proof -
  let ?ls = "[Stored r1, Unparsable x, Stored r2]"
  have l: "d AlertsLog = Some (map Text ?ls)" using lines by simp
  have p: "parsed ?ls = [r1, r2]" by simp
  have g: "\<forall>r \<in> set (parsed ?ls). graded r" using g1 g2 by simp
  then have tm: "\<forall>r \<in> set (parsed ?ls). timed r" by (simp add: graded_def)
  have rr: "read_recent_file d AlertsLog c = Inr [r \<leftarrow> [r1, r2]. c < epoch_of r]" for c
    using read_recent_file_timed[where d = d and f = AlertsLog and ls = ?ls and c = c] l tm by simp
  have recent: "get_recent_alerts_file d t hours =
           Inr [r \<leftarrow> [r1, r2]. t - real_of_int (hours * 3600) < epoch_of r]"
    by (simp add: get_recent_alerts_file_def rr)
  have both: "t - real_of_int (hours * 3600) < epoch_of r1 \<and> t - real_of_int (hours * 3600) < epoch_of r2
            \<longrightarrow> get_recent_alerts_file d t hours = Inr [r1, r2]"
    using recent by simp
  have e: "\<And>p. last_alert empty_summary = Some p \<Longrightarrow> timed p" by (simp add: empty_summary_def)
  from scan_summary_graded[OF g e, where c = "t - 24 * 3600"] obtain s where
    s: "scan_summary (t - 24 * 3600) ?ls empty_summary = Inr s"
       "total_alerts s = total_alerts empty_summary + length (parsed ?ls)"
       "high_severity s = high_severity empty_summary + length [r \<leftarrow> parsed ?ls. severity_of r = ''HIGH'']"
       "medium_severity s = medium_severity empty_summary + length [r \<leftarrow> parsed ?ls. severity_of r = ''MEDIUM'']"
       "low_severity s = low_severity empty_summary + length [r \<leftarrow> parsed ?ls. severity_of r = ''LOW'']"
       "last_24h s = last_24h empty_summary + length [r \<leftarrow> parsed ?ls. t - 24 * 3600 < epoch_of r]"
    by blast
  have z: "total_alerts empty_summary = 0" "high_severity empty_summary = 0"
      "medium_severity empty_summary = 0" "low_severity empty_summary = 0"
      "last_24h empty_summary = 0"
    by (simp_all add: empty_summary_def)
  have gs: "get_alert_summary_file d t = Inr s"
    using s(1) scan_summary_file_Text[of "t - 24 * 3600" ?ls empty_summary]
    by (simp add: get_alert_summary_file_def lines)
  have summ: "\<exists>s. get_alert_summary_file d t = Inr s
              \<and> total_alerts s = 2
              \<and> high_severity s = length [r \<leftarrow> [r1, r2]. severity_of r = ''HIGH'']
              \<and> medium_severity s = length [r \<leftarrow> [r1, r2]. severity_of r = ''MEDIUM'']
              \<and> low_severity s = length [r \<leftarrow> [r1, r2]. severity_of r = ''LOW'']
              \<and> last_24h s = length [r \<leftarrow> [r1, r2]. t - 24 * 3600 < epoch_of r]"
    using gs s(2-6) unfolding z p by (intro exI[of _ s]) simp
  have exp: "d ActivityLog = Some (map Text activity) \<and> (\<forall>r \<in> set (parsed activity). timed r) \<longrightarrow>
            (\<exists>doc. export_logs_file d now hours = Inr doc
               \<and> field ''alerts'' doc =
                   Some (JArr [r \<leftarrow> [r1, r2]. time now - real_of_int (hours * 3600) < epoch_of r]))"
  proof
    assume a: "d ActivityLog = Some (map Text activity) \<and> (\<forall>r \<in> set (parsed activity). timed r)"
    then have ra: "read_recent_file d ActivityLog c = Inr [r \<leftarrow> parsed activity. c < epoch_of r]" for c
      using read_recent_file_timed[where d = d and f = ActivityLog and ls = activity and c = c] by simp
    show "\<exists>doc. export_logs_file d now hours = Inr doc
               \<and> field ''alerts'' doc =
                   Some (JArr [r \<leftarrow> [r1, r2]. time now - real_of_int (hours * 3600) < epoch_of r])"
      by (simp add: export_logs_file_def Let_def rr ra)
  qed
  from recent both summ exp show ?thesis by blast
qed

theorem malformed_line_is_skipped_witness:
  "disk_of torn_logs AlertsLog =
     Some [Text (Stored (alert_entry (at_time 10) ''HIGH'' ''first'' [])),
           Text (Unparsable (''{'' @ [CHR 0x22] @ ''timestamp'' @ [CHR 0x22] @ '': '' @ [CHR 0x22] @ ''2024-01'')),
           Text (Stored (alert_entry (at_time 20) ''MEDIUM'' ''second'' []))]
   \<and> graded (alert_entry (at_time 10) ''HIGH'' ''first'' [])
   \<and> graded (alert_entry (at_time 20) ''MEDIUM'' ''second'' [])
   \<and> disk_of torn_logs ActivityLog =
       Some (map Text
         [Stored (info_entry (at_time 0) ''AlertLogger initialized'' None),
          Unparsable ''{'',
          Stored (alert_entry (at_time 20) ''MEDIUM'' ''second'' [])])
   \<and> list_all timed
        (parsed [Stored (info_entry (at_time 0) ''AlertLogger initialized'' None),
                 Unparsable ''{'',
                 Stored (alert_entry (at_time 20) ''MEDIUM'' ''second'' [])])
   \<and> get_recent_alerts_file (disk_of torn_logs) 30 1 =
       Inr [alert_entry (at_time 10) ''HIGH'' ''first'' [], alert_entry (at_time 20) ''MEDIUM'' ''second'' []]
   \<and> (\<exists>s. get_alert_summary_file (disk_of torn_logs) 30 = Inr s \<and> total_alerts s = 2
          \<and> high_severity s = 1 \<and> medium_severity s = 1 \<and> low_severity s = 0)
   \<and> (\<exists>doc. export_logs_file (disk_of torn_logs) (at_time 30) 1 = Inr doc
          \<and> field ''alerts'' doc =
              Some (JArr [alert_entry (at_time 10) ''HIGH'' ''first'' [],
                          alert_entry (at_time 20) ''MEDIUM'' ''second'' []]))"
proof -
  let ?act = "[Stored (info_entry (at_time 0) ''AlertLogger initialized'' None),
          Unparsable ''{'',
          Stored (alert_entry (at_time 20) ''MEDIUM'' ''second'' [])]"
  have l: "disk_of torn_logs AlertsLog =
     Some [Text (Stored (alert_entry (at_time 10) ''HIGH'' ''first'' [])),
           Text (Unparsable (''{'' @ [CHR 0x22] @ ''timestamp'' @ [CHR 0x22] @ '': '' @ [CHR 0x22] @ ''2024-01'')),
           Text (Stored (alert_entry (at_time 20) ''MEDIUM'' ''second'' []))]"
    by (simp add: disk_of_def torn_logs_def)
  have a: "disk_of torn_logs ActivityLog = Some (map Text ?act)"
    by (simp add: disk_of_def torn_logs_def)
  have ta: "\<forall>r \<in> set (parsed ?act). timed r"
    by (simp add: timed_def info_entry_def alert_entry_def)
  have g1: "graded (alert_entry (at_time 10) ''HIGH'' ''first'' [])"
   and g2: "graded (alert_entry (at_time 20) ''MEDIUM'' ''second'' [])" by simp_all
  have "get_recent_alerts_file (disk_of torn_logs) 30 1 =
       Inr [alert_entry (at_time 10) ''HIGH'' ''first'' [], alert_entry (at_time 20) ''MEDIUM'' ''second'' []]
   \<and> (\<exists>s. get_alert_summary_file (disk_of torn_logs) 30 = Inr s \<and> total_alerts s = 2
          \<and> high_severity s = 1 \<and> medium_severity s = 1 \<and> low_severity s = 0)
   \<and> (\<exists>doc. export_logs_file (disk_of torn_logs) (at_time 30) 1 = Inr doc
          \<and> field ''alerts'' doc =
              Some (JArr [alert_entry (at_time 10) ''HIGH'' ''first'' [],
                          alert_entry (at_time 20) ''MEDIUM'' ''second'' []]))"
    using malformed_line_is_skipped[where d = "disk_of torn_logs" and t = 30 and hours = 1
        and activity = ?act and now = "at_time 30", OF l g1 g2] a ta
    by (auto simp: at_time_def upper_char_def)
  then show ?thesis using l a ta g1 g2 unfolding list_all_iff by blast
qed

text \<open>
  The claim as stated fails for a malformed line of another kind: on a line of bytes
  that are not UTF-8, reading the file raises \<^verbatim>\<open>UnicodeDecodeError\<close>, which no pass
  catches, and every pass ends with that exception although the two records around the
  line are well formed.
\<close>

theorem undecodable_line_counterexample:
  "undecodable_disk AlertsLog =
     Some [Text (Stored (alert_entry (at_time 10) ''HIGH'' ''first'' [])),
           Broken UnicodeDecodeError [CHR 0xFF, CHR 0xFE, CHR ''{''],
           Text (Stored (alert_entry (at_time 20) ''MEDIUM'' ''second'' []))]
   \<and> get_recent_alerts_file undecodable_disk 30 1 = Inl UnicodeDecodeError
   \<and> get_alert_summary_file undecodable_disk 30 = Inl UnicodeDecodeError
   \<and> export_logs_file undecodable_disk (at_time 30) 1 = Inl UnicodeDecodeError"
  by (simp add: undecodable_disk_def get_recent_alerts_file_def read_recent_file_def
        get_alert_summary_file_def export_logs_file_def Let_def alert_entry_def py_gt_def
        summary_step_def empty_summary_def upper_char_def at_time_def)

section \<open>C5: the export snapshot\<close>

lemma export_logs_errors_field:
  "export_logs st now later output_file hours = Inr (doc, st') \<Longrightarrow>
   field ''errors'' doc = Some (JArr [])"
  by (auto simp: export_logs_def Let_def split: sum.splits)

text \<open>
  C5. The snapshot of \<^verbatim>\<open>export_logs\<close> has the five top-level fields, and \<open>alerts\<close> and
  \<open>activities\<close> hold the records of the alerts log and of the activity log inside the
  window (\<open>export_logs_timed\<close>). The \<open>errors\<close> sequence does not hold the records of
  the error log: the error log is never read, and \<open>errors\<close> is empty whatever the error
  log holds. Here the error log has one record at time 100, the export runs at time 200
  over 24 hours, and \<open>errors\<close> is empty.
\<close>

theorem export_logs_errors_empty:
  "log_lines one_error ErrorLog =
     [Stored (error_entry (at_time 100) ''SSH honeypot error: connection reset'' [])]
   \<and> time (at_time 200) - real_of_int (24 * 3600)
       < epoch_of (error_entry (at_time 100) ''SSH honeypot error: connection reset'' [])
   \<and> map_sum id (\<lambda>(doc, st'). field ''errors'' doc)
        (export_logs one_error (at_time 200) (at_time 201) ''report.json'' 24) =
      Inr (Some (JArr []))"
  by (simp add: one_error_def log_error_def new_logger_def quiet_machine_def log_info_def
        write_to_log_def log_lines_def error_entry_def info_entry_def epoch_of_def at_time_def
        export_logs_def read_recent_def py_gt_def Let_def)

section \<open>C10: the activity log as audit trail\<close>

lemma activity_log_append:
  "write_error st ActivityLog = None \<Longrightarrow>
   log_lines (append st ev) ActivityLog =
     log_lines st ActivityLog @
       (case ev of Error now message error_details \<Rightarrow> [] | _ \<Rightarrow> [Stored (entry_of ev)])"
  by (cases ev) (simp_all add: log_alert_def log_info_def log_error_def Let_def
        send_high_priority_alert_keeps log_lines_write_to_log)

lemma trail_append:
  assumes "set (log_lines st AlertsLog) \<subseteq> set (log_lines st ActivityLog)"
      and "write_error st ActivityLog = None"
  shows "set (log_lines (append st ev) AlertsLog) \<subseteq> set (log_lines (append st ev) ActivityLog)"
  unfolding alerts_log_append activity_log_append[OF assms(2)]
  using assms(1) by (cases ev) auto

text \<open>
  C10 (amended). \<^verbatim>\<open>log_alert\<close> hands the same record to both writes: where the two logs
  can be written, each gains that one record at its end. As long as writing the activity
  log does not fail, every line of the alerts log is a line of the activity log after
  any sequence of appends, if it was so before (as it is on empty logs).
\<close>

theorem activity_log_holds_every_alert:
  assumes "set (log_lines st AlertsLog) \<subseteq> set (log_lines st ActivityLog)"
      and "write_error st ActivityLog = None"
  shows "set (log_lines (foldl append st evs) AlertsLog)
           \<subseteq> set (log_lines (foldl append st evs) ActivityLog)
       \<and> (write_error st AlertsLog = None \<longrightarrow>
            log_lines (log_alert st now later severity message details) AlertsLog =
              log_lines st AlertsLog @ [Stored (alert_entry now severity message details)]
          \<and> log_lines (log_alert st now later severity message details) ActivityLog =
              log_lines st ActivityLog @ [Stored (alert_entry now severity message details)])"
proof -
  have "set (log_lines (foldl append st evs) AlertsLog)
           \<subseteq> set (log_lines (foldl append st evs) ActivityLog)"
    using assms
  proof (induction evs arbitrary: st)
    case Nil
    then show ?case by simp
  next
    case (Cons ev evs)
    have "set (log_lines (append st ev) AlertsLog) \<subseteq> set (log_lines (append st ev) ActivityLog)"
      using trail_append[OF Cons.prems] .
    moreover have "write_error (append st ev) ActivityLog = None"
      using Cons.prems(2) by simp
    ultimately show ?case using Cons.IH by simp
  qed
  moreover have "write_error st AlertsLog = None \<longrightarrow>
            log_lines (log_alert st now later severity message details) AlertsLog =
              log_lines st AlertsLog @ [Stored (alert_entry now severity message details)]
          \<and> log_lines (log_alert st now later severity message details) ActivityLog =
              log_lines st ActivityLog @ [Stored (alert_entry now severity message details)]"
    using alerts_log_append[of st "Alert now later severity message details"]
      activity_log_append[OF assms(2), of "Alert now later severity message details"]
    by simp
  ultimately show ?thesis by blast
qed

theorem activity_log_holds_every_alert_witness:
  "set (log_lines (new_logger quiet_machine (at_time 0)) AlertsLog)
     \<subseteq> set (log_lines (new_logger quiet_machine (at_time 0)) ActivityLog)
   \<and> write_error (new_logger quiet_machine (at_time 0)) ActivityLog = None
   \<and> set (log_lines five_alerts AlertsLog) \<subseteq> set (log_lines five_alerts ActivityLog)
   \<and> log_lines (log_alert (new_logger quiet_machine (at_time 0)) (at_time 1) (at_time 2)
         ''HIGH'' ''a'' []) ActivityLog =
       [Stored (info_entry (at_time 0) ''AlertLogger initialized'' None),
        Stored (alert_entry (at_time 1) ''HIGH'' ''a'' [])]"
proof -
  have i: "set (log_lines (new_logger quiet_machine (at_time 0)) AlertsLog)
     \<subseteq> set (log_lines (new_logger quiet_machine (at_time 0)) ActivityLog)"
    by (simp add: new_logger_quiet)
  have w: "write_error (new_logger quiet_machine (at_time 0)) ActivityLog = None"
    by (simp add: new_logger_quiet)
  have a: "log_lines (new_logger quiet_machine (at_time 0)) ActivityLog =
       [Stored (info_entry (at_time 0) ''AlertLogger initialized'' None)]"
    by (simp add: new_logger_def quiet_machine_def log_info_def write_to_log_def log_lines_def)
  show ?thesis
    using i w a activity_log_holds_every_alert[OF i w,
        of "[Alert (at_time 1) (at_time 1) ''HIGH'' ''a'' [],
        Alert (at_time 2) (at_time 2) ''HIGH'' ''b'' [],
        Alert (at_time 3) (at_time 3) ''MEDIUM'' ''c'' [],
        Alert (at_time 4) (at_time 4) ''LOW'' ''d'' [],
        Alert (at_time 5) (at_time 5) ''UNKNOWN'' ''e'' []]" "at_time 1" "at_time 2" "''HIGH''" "''a''" "[]"]
    by (simp add: five_alerts_def new_logger_quiet)
qed

text \<open>
  The claim as stated fails: \<^verbatim>\<open>_write_to_log\<close> catches the exception of each write on its
  own, so when only the activity log cannot be written, one \<^verbatim>\<open>log_alert\<close> leaves the alert
  in the alerts log and not in the activity log.
\<close>

theorem activity_log_misses_alert_counterexample:
  "log_lines (log_alert activity_unwritable (at_time 10) (at_time 11) ''MEDIUM'' ''probe'' [])
     AlertsLog =
     [Stored (alert_entry (at_time 10) ''MEDIUM'' ''probe'' [])]
   \<and> log_lines (log_alert activity_unwritable (at_time 10) (at_time 11) ''MEDIUM'' ''probe'' [])
       ActivityLog =
     [Stored (info_entry (at_time 0) ''AlertLogger initialized'' None)]
   \<and> \<not> set (log_lines (log_alert activity_unwritable (at_time 10) (at_time 11) ''MEDIUM'' ''probe'' [])
              AlertsLog)
       \<subseteq> set (log_lines (log_alert activity_unwritable (at_time 10) (at_time 11) ''MEDIUM'' ''probe'' [])
              ActivityLog)"
  by (simp add: activity_unwritable_def log_alert_def new_logger_def quiet_machine_def log_info_def
        write_to_log_def print_def log_lines_def Let_def alert_entry_def info_entry_def)

section \<open>C6: the high-priority hook\<close>


lemma os_commands_write_to_log [simp]: "os_commands (write_to_log st f e) = os_commands st"
  by (simp add: write_to_log_def print_def split: option.splits)

lemma platform_write_to_log [simp]:
  "platform_system (write_to_log st f e) = platform_system st"
  "os_system_error (write_to_log st f e) = os_system_error st"
  by (simp_all add: write_to_log_def print_def split: option.splits)

lemma print_fields [simp]:
  "os_commands (print st s) = os_commands st"
  "platform_system (print st s) = platform_system st"
  "os_system_error (print st s) = os_system_error st"
  "console (print st s) = console st @ [s]"
  by (simp_all add: print_def)
















section \<open>C4: classification of file system events\<close>







section \<open>C9: stopping twice\<close>

text \<open>
  C9. A file watcher whose observer was started whenever its flag is set (as \<^verbatim>\<open>start\<close>
  leaves it) stops without error, and a second \<^verbatim>\<open>stop()\<close> returns without error and
  changes nothing at all; the flag is false and \<^verbatim>\<open>is_alive()\<close> is false. A network
  monitor can always be stopped, twice as well: the flag is false after each call, and
  the second call leaves the flag and the monitors as they are; all it does is log the
  stop once more.
\<close>

theorem stop_twice:
  "((is_running w \<longrightarrow> observer w \<noteq> Unstarted) \<longrightarrow>
      (\<exists>w1. file_watcher_stop w c1 = Inr w1 \<and> file_watcher_stop w1 c2 = Inr w1
            \<and> \<not> is_running w1 \<and> \<not> is_alive w1))
   \<and> \<not> is_running (network_monitor_stop n c1)
   \<and> \<not> is_running (network_monitor_stop (network_monitor_stop n c1) c2)
   \<and> monitors (network_monitor_stop (network_monitor_stop n c1) c2) = monitors (network_monitor_stop n c1)
   \<and> network_monitor_stop (network_monitor_stop n c1) c2 =
       (network_monitor_stop n c1)
         \<lparr>logger := log_info (logger (network_monitor_stop n c1)) c2 ''Network monitoring stopped'' None\<rparr>"
proof -
  have fw: "(is_running w \<longrightarrow> observer w \<noteq> Unstarted) \<longrightarrow>
      (\<exists>w1. file_watcher_stop w c1 = Inr w1 \<and> file_watcher_stop w1 c2 = Inr w1
            \<and> \<not> is_running w1 \<and> \<not> is_alive w1)"
    by (cases "observer w") (auto simp: file_watcher_stop_def is_alive_def)
  have nm: "\<not> is_running (network_monitor_stop n c1)
   \<and> \<not> is_running (network_monitor_stop (network_monitor_stop n c1) c2)
   \<and> monitors (network_monitor_stop (network_monitor_stop n c1) c2) = monitors (network_monitor_stop n c1)
   \<and> network_monitor_stop (network_monitor_stop n c1) c2 =
       (network_monitor_stop n c1)
         \<lparr>logger := log_info (logger (network_monitor_stop n c1)) c2 ''Network monitoring stopped'' None\<rparr>"
    by (simp add: network_monitor_stop_def)
  from fw nm show ?thesis by blast
qed

theorem stop_twice_witness:
  "is_running running_watcher \<and> observer running_watcher \<noteq> Unstarted
   \<and> (\<exists>w1. file_watcher_stop running_watcher (at_time 5) = Inr w1
          \<and> file_watcher_stop w1 (at_time 6) = Inr w1 \<and> \<not> is_running w1 \<and> \<not> is_alive w1)
   \<and> is_running running_monitor
   \<and> \<not> is_running (network_monitor_stop (network_monitor_stop running_monitor (at_time 5)) (at_time 6))
   \<and> monitors (network_monitor_stop (network_monitor_stop running_monitor (at_time 5)) (at_time 6))
       = [Alive, Alive]"
proof -
  have r: "is_running running_watcher" "observer running_watcher \<noteq> Unstarted"
      "is_running running_monitor"
    by (simp_all add: running_watcher_def running_monitor_def)
  have m: "monitors (network_monitor_stop running_monitor (at_time 5)) = [Alive, Alive]"
    by (simp add: network_monitor_stop_def running_monitor_def)
  from stop_twice[of running_watcher "at_time 5" "at_time 6" running_monitor] r m
  show ?thesis by simp
qed

section \<open>C7: the honeypot loop\<close>







end
